theory Spec2Isabelle
  imports Main "HOL-Library.Char_ord" "HOL-Library.List_Lexorder" "HOL-Library.Multiset"
    "HOL-Library.AList"
begin

section \<open>Go library functions used by mockgen\<close>

text \<open>
  A Go string is modelled as a \<^typ>\<open>string\<close>. Go compares strings bytewise and
  lexicographically, which is the order of \<open>List_Lexorder\<close> over \<open>Char_ord\<close>.
\<close>

subsection \<open>strconv.Itoa on the non-negative counters of the source\<close>

fun Itoa :: "nat \<Rightarrow> string" where
  "Itoa n = (if n < 10 then [''0123456789'' ! n]
             else Itoa (n div 10) @ [''0123456789'' ! (n mod 10)])"

declare Itoa.simps [simp del]

definition digit_val :: "char \<Rightarrow> nat" where
  "digit_val c = of_char c - 48"

definition Atoi :: "string \<Rightarrow> nat" where
  "Atoi s = foldl (\<lambda>a c. 10 * a + digit_val c) 0 s"

lemma digit_val_digit: "d < 10 \<Longrightarrow> digit_val (''0123456789'' ! d) = d"
proof -
  assume "d < 10"
  then have "d \<in> {0, 1, 2, 3, 4, 5, 6, 7, 8, 9}" by auto
  then show ?thesis by (auto simp: digit_val_def)
qed

lemma Atoi_Itoa: "Atoi (Itoa n) = n"
proof (induction n rule: Itoa.induct)
  case (1 n)
  show ?case
  proof (cases "n < 10")
    case True
    then show ?thesis by (simp add: Itoa.simps [of n] Atoi_def digit_val_digit)
  next
    case False
    with 1 have "Atoi (Itoa (n div 10)) = n div 10" by simp
    with False show ?thesis
      by (simp add: Itoa.simps [of n] Atoi_def digit_val_digit)
  qed
qed

lemma Itoa_inject: "Itoa m = Itoa n \<longleftrightarrow> m = n"
  by (metis Atoi_Itoa)

lemma Itoa_digits: "c \<in> set (Itoa n) \<Longrightarrow> c \<in> set ''0123456789''"
proof (induction n rule: Itoa.induct)
  case (1 n)
  show ?case
  proof (cases "n < 10")
    case True
    then have "n \<in> {0, 1, 2, 3, 4, 5, 6, 7, 8, 9}" by auto
    with 1(2) show ?thesis by (auto simp: Itoa.simps [of n])
  next
    case False
    have "''0123456789'' ! (n mod 10) \<in> set ''0123456789''"
      by (rule nth_mem) simp
    with 1 False show ?thesis by (auto simp: Itoa.simps [of n])
  qed
qed

lemma Itoa_nonempty: "Itoa n \<noteq> []"
  by (simp add: Itoa.simps [of n])

section \<open>The identifier allocator\<close>

text \<open>
  \<^verbatim>\<open>type identifierAllocator map[string]struct{}\<close>: a finite set of names, kept as
  the list of its keys. \<^verbatim>\<open>newIdentifierAllocator\<close> inserts every taken name.
\<close>

type_synonym identifierAllocator = "string list"

definition newIdentifierAllocator :: "string list \<Rightarrow> identifierAllocator" where
  "newIdentifierAllocator taken = foldl (\<lambda>a s. List.insert s a) [] taken"

lemma finite_suffixed: "finite {j. want @ sep @ Itoa j \<in> set al}"
proof -
  have "inj (\<lambda>j. want @ sep @ Itoa j)"
    by (simp add: inj_def Itoa_inject)
  then have "finite ((\<lambda>j. want @ sep @ Itoa j) -` set al)"
    by (intro finite_vimageI) simp_all
  then show ?thesis by (simp add: vimage_def)
qed

text \<open>
  The loop of \<^verbatim>\<open>allocateIdentifier\<close>, with its two variables \<open>id\<close> and \<open>i\<close>:
  \<^verbatim>\<open>for i := 2; ; i++ { if _, ok := o[id]; !ok { o[id] = struct{}{}; return id }
     id = want + "_" + strconv.Itoa(i) }\<close>
\<close>

function allocate_loop :: "string \<Rightarrow> identifierAllocator \<Rightarrow> string \<Rightarrow> nat \<Rightarrow> string" where
  "allocate_loop want al ident i =
     (if ident \<notin> set al then ident
      else allocate_loop want al (want @ ''_'' @ Itoa i) (Suc i))"
  by pat_completeness auto
termination
proof (relation "measure (\<lambda>(want, al, ident, i).
         card {j. i \<le> j \<and> want @ ''_'' @ Itoa j \<in> set al} + (if ident \<in> set al then 1 else 0))")
  show "wf (measure (\<lambda>(want, al, ident, i).
         card {j. i \<le> j \<and> want @ ''_'' @ Itoa j \<in> set al} + (if ident \<in> set al then 1 else 0)))"
    by simp
next
  fix want :: string and al :: identifierAllocator and ident :: string and i :: nat
  assume "\<not> ident \<notin> set al"
  then have taken: "ident \<in> set al" by simp
  let ?A = "\<lambda>k. {j. k \<le> j \<and> want @ ''_'' @ Itoa j \<in> set al}"
  have fin: "finite (?A i)"
    using finite_suffixed [of want "''_''" al] by (rule rev_finite_subset) auto
  show "((want, al, want @ ''_'' @ Itoa i, Suc i), (want, al, ident, i))
        \<in> measure (\<lambda>(want, al, ident, i).
            card {j. i \<le> j \<and> want @ ''_'' @ Itoa j \<in> set al} + (if ident \<in> set al then 1 else 0))"
  proof (cases "want @ ''_'' @ Itoa i \<in> set al")
    case True
    have "i \<in> ?A i" "i \<notin> ?A (Suc i)" "?A (Suc i) \<subseteq> ?A i"
      using True by auto
    then have "?A (Suc i) \<subset> ?A i" by blast
    then have "card (?A (Suc i)) < card (?A i)"
      using fin by (rule psubset_card_mono [rotated])
    with True taken show ?thesis by simp
  next
    case False
    have "card (?A (Suc i)) \<le> card (?A i)"
      using fin by (rule card_mono) auto
    with False taken show ?thesis by simp
  qed
qed

declare allocate_loop.simps [simp del]

definition allocateIdentifier :: "identifierAllocator \<Rightarrow> string \<Rightarrow> string \<times> identifierAllocator" where
  "allocateIdentifier al want =
     (let ident = allocate_loop want al want 2 in (ident, ident # al))"

section \<open>More of the Go library\<close>

text \<open>
  A Go string is a sequence of bytes, and so is a \<^typ>\<open>string\<close> here. A rune is a code
  point, a natural number. The newline, tab, double quote and backslash are written by
  their codes.
\<close>

type_synonym rune = nat

text \<open>
  The functions of other packages that mockgen calls and whose tables or code are not part
  of it: \<^verbatim>\<open>Type.String(pm, pkgOverride)\<close> of package \<^verbatim>\<open>model\<close>, and, for what lies
  beyond ASCII, \<^verbatim>\<open>strconv.Quote\<close>, \<^verbatim>\<open>unicode.IsLetter\<close> and \<^verbatim>\<open>unicode.IsDigit\<close>. On ASCII
  the three are defined below as Go defines them.
\<close>

type_synonym 'ty TypeString = "'ty \<Rightarrow> (string \<rightharpoonup> string) \<Rightarrow> string \<Rightarrow> string"

record 'ty library =
  TypeString :: "'ty TypeString"
  strconv_Quote :: "string \<Rightarrow> string"
  unicode_IsLetter :: "rune \<Rightarrow> bool"
  unicode_IsDigit :: "rune \<Rightarrow> bool"

abbreviation nl :: char where "nl \<equiv> CHR 0x0A"
abbreviation tab :: char where "tab \<equiv> CHR 0x09"
abbreviation dquote :: char where "dquote \<equiv> CHR 0x22"
abbreviation backslash :: char where "backslash \<equiv> CHR 0x5C"

text \<open>\<^verbatim>\<open>strings.Join(elems, sep)\<close>\<close>

fun Join :: "string list \<Rightarrow> string \<Rightarrow> string" where
  "Join [] sep = []"
| "Join [x] sep = x"
| "Join (x # y # ys) sep = x @ sep @ Join (y # ys) sep"

text \<open>\<^verbatim>\<open>strings.Split(s, sep)\<close> for a separator of one byte: never the empty slice.\<close>

fun Split :: "string \<Rightarrow> char \<Rightarrow> string list" where
  "Split [] sep = [[]]"
| "Split (c # cs) sep =
     (if c = sep then [] # Split cs sep
      else (case Split cs sep of
              [] \<Rightarrow> [[c]]
            | part # parts \<Rightarrow> (c # part) # parts))"

text \<open>\<^verbatim>\<open>strings.Index(s, sep)\<close> for a separator of one byte: \<open>None\<close> stands for \<open>-1\<close>.\<close>

fun Index :: "string \<Rightarrow> char \<Rightarrow> nat option" where
  "Index [] sep = None"
| "Index (c # cs) sep =
     (if c = sep then Some 0 else map_option Suc (Index cs sep))"

text \<open>\<^verbatim>\<open>strings.TrimSuffix(s, suffix)\<close>\<close>

definition TrimSuffix :: "string \<Rightarrow> string \<Rightarrow> string" where
  "TrimSuffix s suffix =
     (if length suffix \<le> length s \<and> drop (length s - length suffix) s = suffix
      then take (length s - length suffix) s else s)"

text \<open>
  \<^verbatim>\<open>path.Base\<close>: the last element of a slash-separated path, after removing trailing
  slashes; \<open>.\<close> for the empty path and \<open>/\<close> for a path of slashes only.
\<close>

definition path_Base :: "string \<Rightarrow> string" where
  "path_Base pth =
     (if pth = [] then ''.''
      else let stripped = rev (dropWhile (\<lambda>c. c = CHR ''/'') (rev pth));
               elem = rev (takeWhile (\<lambda>c. c \<noteq> CHR ''/'') (rev stripped))
           in if elem = [] then ''/'' else elem)"

text \<open>
  \<^verbatim>\<open>unicode.IsLetter\<close> and \<^verbatim>\<open>unicode.IsDigit\<close>: on ASCII the letters are \<open>A-Z\<close> and
  \<open>a-z\<close> and the digits \<open>0-9\<close>; beyond ASCII the tables of the library decide.
\<close>

definition IsLetter :: "'ty library \<Rightarrow> rune \<Rightarrow> bool" where
  "IsLetter lib r \<longleftrightarrow>
     (if r < 0x80 then (0x41 \<le> r \<and> r \<le> 0x5A) \<or> (0x61 \<le> r \<and> r \<le> 0x7A)
      else unicode_IsLetter lib r)"

definition IsDigit :: "'ty library \<Rightarrow> rune \<Rightarrow> bool" where
  "IsDigit lib r \<longleftrightarrow>
     (if r < 0x80 then 0x30 \<le> r \<and> r \<le> 0x39 else unicode_IsDigit lib r)"

text \<open>
  \<^verbatim>\<open>utf8.DecodeRuneInString\<close>: the first rune of a string and its width in bytes. A byte
  sequence that is not the UTF-8 encoding of a rune gives \<open>U+FFFD\<close> with width 1.
\<close>

definition continuation :: "char \<Rightarrow> bool" where
  "continuation b \<longleftrightarrow> 0x80 \<le> (of_char b :: nat) \<and> (of_char b :: nat) \<le> 0xBF"

fun DecodeRune :: "string \<Rightarrow> rune \<times> nat" where
  "DecodeRune [] = (0xFFFD, 0)"
| "DecodeRune (b0 # bs) =
     (let n0 = (of_char b0 :: nat) in
      if n0 < 0x80 then (n0, 1)
      else if 0xC2 \<le> n0 \<and> n0 \<le> 0xDF then
        (case bs of
           b1 # _ \<Rightarrow>
             if continuation b1 then ((n0 - 0xC0) * 64 + (of_char b1 - 0x80), 2)
             else (0xFFFD, 1)
         | _ \<Rightarrow> (0xFFFD, 1))
      else if 0xE0 \<le> n0 \<and> n0 \<le> 0xEF then
        (case bs of
           b1 # b2 # _ \<Rightarrow>
             if (if n0 = 0xE0 then 0xA0 else 0x80) \<le> (of_char b1 :: nat) \<and>
                (of_char b1 :: nat) \<le> (if n0 = 0xED then 0x9F else 0xBF) \<and> continuation b2
             then (((n0 - 0xE0) * 64 + (of_char b1 - 0x80)) * 64 + (of_char b2 - 0x80), 3)
             else (0xFFFD, 1)
         | _ \<Rightarrow> (0xFFFD, 1))
      else if 0xF0 \<le> n0 \<and> n0 \<le> 0xF4 then
        (case bs of
           b1 # b2 # b3 # _ \<Rightarrow>
             if (if n0 = 0xF0 then 0x90 else 0x80) \<le> (of_char b1 :: nat) \<and>
                (of_char b1 :: nat) \<le> (if n0 = 0xF4 then 0x8F else 0xBF) \<and>
                continuation b2 \<and> continuation b3
             then ((((n0 - 0xF0) * 64 + (of_char b1 - 0x80)) * 64 + (of_char b2 - 0x80)) * 64 +
                   (of_char b3 - 0x80), 4)
             else (0xFFFD, 1)
         | _ \<Rightarrow> (0xFFFD, 1))
      else (0xFFFD, 1))"

declare DecodeRune.simps [simp del]

text \<open>The runes a \<^verbatim>\<open>for _, r := range s\<close> loop visits.\<close>

function DecodeRunes :: "string \<Rightarrow> rune list" where
  "DecodeRunes [] = []"
| "DecodeRunes (b # bs) =
     fst (DecodeRune (b # bs)) # DecodeRunes (drop (snd (DecodeRune (b # bs)) - 1) bs)"
  by pat_completeness auto
termination
  by (relation "measure length") auto

text \<open>
  \<^verbatim>\<open>string(r)\<close>: the UTF-8 encoding of a rune; a surrogate or a value beyond \<open>U+10FFFF\<close>
  is encoded as \<open>U+FFFD\<close>.
\<close>

definition EncodeRune :: "rune \<Rightarrow> string" where
  "EncodeRune r =
     (if r < 0x80 then [char_of r]
      else if r < 0x800 then [char_of (0xC0 + r div 64), char_of (0x80 + r mod 64)]
      else if r < 0x10000 \<and> \<not> (0xD800 \<le> r \<and> r \<le> 0xDFFF) then
        [char_of (0xE0 + r div 4096), char_of (0x80 + r div 64 mod 64), char_of (0x80 + r mod 64)]
      else if 0x10000 \<le> r \<and> r \<le> 0x10FFFF then
        [char_of (0xF0 + r div 262144), char_of (0x80 + r div 4096 mod 64),
         char_of (0x80 + r div 64 mod 64), char_of (0x80 + r mod 64)]
      else [CHR 0xEF, CHR 0xBF, CHR 0xBD])"

text \<open>\<^verbatim>\<open>token.Lookup(name).IsKeyword()\<close>: the 25 keywords of Go.\<close>

definition go_keywords :: "string list" where
  "go_keywords = [''break'', ''case'', ''chan'', ''const'', ''continue'', ''default'', ''defer'',
     ''else'', ''fallthrough'', ''for'', ''func'', ''go'', ''goto'', ''if'', ''import'',
     ''interface'', ''map'', ''package'', ''range'', ''return'', ''select'', ''struct'',
     ''switch'', ''type'', ''var'']"

definition IsKeyword :: "string \<Rightarrow> bool" where
  "IsKeyword name \<longleftrightarrow> name \<in> set go_keywords"

text \<open>
  The verb \<^verbatim>\<open>%q\<close> of \<^verbatim>\<open>fmt\<close> on a string is \<^verbatim>\<open>strconv.Quote\<close>. On an ASCII string the
  double quote and the backslash are escaped, a printable character is kept, the control
  characters with a short escape use it and the others are written \<^verbatim>\<open>\xhh\<close>. A string
  with a byte beyond ASCII is left to the library.
\<close>

definition hex2 :: "nat \<Rightarrow> string" where
  "hex2 n = [''0123456789abcdef'' ! (n div 16 mod 16), ''0123456789abcdef'' ! (n mod 16)]"

definition quote_rune :: "char \<Rightarrow> string" where
  "quote_rune r =
     (if r = dquote \<or> r = backslash then [backslash, r]
      else if CHR 0x20 \<le> r \<and> r \<le> CHR 0x7E then [r]
      else if r = CHR 0x07 then [backslash, CHR ''a'']
      else if r = CHR 0x08 then [backslash, CHR ''b'']
      else if r = CHR 0x0C then [backslash, CHR ''f'']
      else if r = nl then [backslash, CHR ''n'']
      else if r = CHR 0x0D then [backslash, CHR ''r'']
      else if r = tab then [backslash, CHR ''t'']
      else if r = CHR 0x0B then [backslash, CHR ''v'']
      else [backslash, CHR ''x''] @ hex2 (of_char r))"

definition Quote :: "'ty library \<Rightarrow> string \<Rightarrow> string" where
  "Quote lib s =
     (if list_all (\<lambda>c. (of_char c :: nat) < 0x80) s
      then [dquote] @ concat (map quote_rune s) @ [dquote]
      else strconv_Quote lib s)"

section \<open>sanitize\<close>

text \<open>
  The loop of \<^verbatim>\<open>sanitize\<close> over the runes of \<open>s\<close>, with its accumulator \<open>t\<close>:
  \<^verbatim>\<open>if t == "" { if unicode.IsLetter(r) || r == '_' { t += string(r); continue } }
  else { if unicode.IsLetter(r) || unicode.IsDigit(r) || r == '_' { t += string(r); continue } }
  t += "_"\<close>
\<close>

fun sanitize_loop :: "'ty library \<Rightarrow> string \<Rightarrow> rune list \<Rightarrow> string" where
  "sanitize_loop lib t [] = t"
| "sanitize_loop lib t (r # rs) =
     (if t = [] then
        (if IsLetter lib r \<or> r = 0x5F then sanitize_loop lib (t @ EncodeRune r) rs
         else sanitize_loop lib (t @ ''_'') rs)
      else
        (if IsLetter lib r \<or> IsDigit lib r \<or> r = 0x5F then sanitize_loop lib (t @ EncodeRune r) rs
         else sanitize_loop lib (t @ ''_'') rs))"

definition sanitize :: "'ty library \<Rightarrow> string \<Rightarrow> string" where
  "sanitize lib s =
     (let t = sanitize_loop lib [] (DecodeRunes s) in if t = ''_'' then ''x'' else t)"

section \<open>The interface model and the generator\<close>

text \<open>
  The types of package \<^verbatim>\<open>model\<close>. A \<^verbatim>\<open>model.Type\<close> is kept abstract (the type
  variable \<open>'ty\<close>): mockgen only renders it, through \<^verbatim>\<open>Type.String(pm, pkgOverride)\<close>,
  the field \<open>TypeString\<close> of the library. The key set of the map
  returned by \<^verbatim>\<open>pkg.Imports()\<close> is the field \<open>Imports\<close>.
\<close>

record 'ty Parameter =
  PName :: string
  PType :: 'ty

record 'ty Method =
  MName :: string
  In :: "'ty Parameter list"
  Out :: "'ty Parameter list"
  Variadic :: "'ty Parameter option"

record 'ty Interface =
  IName :: string
  Methods :: "'ty Method list"
  TypeParams :: "'ty Parameter list"

record 'ty Package =
  PkgName :: string
  PkgPath :: string
  Interfaces :: "'ty Interface list"
  DotImports :: "string list"
  Imports :: "string list"

text \<open>The command-line flags the generator reads.\<close>

record flags =
  selfPackage :: string
  writeCmdComment :: bool
  writePkgComment :: bool
  writeSourceComment :: bool
  writeGenerateDirective :: bool
  typed_flag :: bool
  imports_flag :: string

text \<open>
  What the generator takes from its surroundings: \<^verbatim>\<open>os.Args\<close>, \<^verbatim>\<open>runtime.GOOS\<close>, the
  platform's \<^verbatim>\<open>filepath.Base\<close>, the \<open>(ImportPath, Name)\<close> records decoded from the output
  of \<^verbatim>\<open>go list\<close>, and the order in which a \<^verbatim>\<open>range\<close> statement visits the entries of a
  map (Go leaves it unspecified).
\<close>

record environment =
  Args :: "string list"
  GOOS :: string
  filepath_Base :: "string \<Rightarrow> string"
  goList :: "string list \<Rightarrow> (string \<times> string) list"
  rangeOrder :: "(string \<times> string) list \<Rightarrow> (string \<times> string) list"

text \<open>
  \<^verbatim>\<open>type generator struct\<close>. The map \<open>packageMap\<close> is an association list with
  distinct keys, written with \<^const>\<open>AList.update\<close> and read with \<^const>\<open>map_of\<close>.
\<close>

record generator =
  buf :: string
  indent :: string
  mockNames :: "string \<rightharpoonup> string"
  filename :: string
  destination :: string
  srcPackage :: string
  srcInterfaces :: string
  copyrightHeader :: string
  buildConstraint :: string
  packageMap :: "(string \<times> string) list"

datatype error = IndexOutOfRange | SliceBoundsOutOfRange

text \<open>
  \<^verbatim>\<open>g.p(format, args...)\<close> writes the indentation, the formatted line and a newline.
  The formatting is done where \<open>g_p\<close> is called: the verbs \<^verbatim>\<open>%v\<close> and \<^verbatim>\<open>%s\<close> on a
  string insert it, \<^verbatim>\<open>%d\<close> is \<^const>\<open>Itoa\<close>, \<^verbatim>\<open>%q\<close> is \<^const>\<open>Quote\<close>.
\<close>

definition g_p :: "generator \<Rightarrow> string \<Rightarrow> generator" where
  "g_p g line = g\<lparr>buf := buf g @ indent g @ line @ [nl]\<rparr>"

definition g_in :: "generator \<Rightarrow> generator" where
  "g_in g = g\<lparr>indent := indent g @ [tab]\<rparr>"

definition g_out :: "generator \<Rightarrow> generator" where
  "g_out g = (if length (indent g) > 0 then g\<lparr>indent := butlast (indent g)\<rparr> else g)"

text \<open>
  A function of the generator is a sequence of calls of \<^verbatim>\<open>g.p\<close>, \<^verbatim>\<open>g.in\<close> and \<^verbatim>\<open>g.out\<close>
  on the one buffer. Such a sequence is written as a list of \<open>Emit line\<close>, \<open>Indent\<close>
  and \<open>Dedent\<close>, which \<open>exec\<close> runs from left to right on the generator.
\<close>

datatype action = Emit string | Indent | Dedent

fun exec1 :: "generator \<Rightarrow> action \<Rightarrow> generator" where
  "exec1 g (Emit line) = g_p g line"
| "exec1 g Indent = g_in g"
| "exec1 g Dedent = g_out g"

definition exec :: "generator \<Rightarrow> action list \<Rightarrow> generator" where
  "exec g acts = foldl exec1 g acts"

definition gomockImportPath :: string where
  "gomockImportPath = ''go.uber.org/mock/gomock''"

subsection \<open>Argument names and types\<close>

text \<open>
  \<^verbatim>\<open>nameExistsAsPackage\<close> ranges over \<open>packageMap\<close> and returns true as soon as an entry
  has the name: its result is the same in every order of the visit.
\<close>

definition nameExistsAsPackage :: "generator \<Rightarrow> string \<Rightarrow> bool" where
  "nameExistsAsPackage g name \<longleftrightarrow> list_ex (\<lambda>(pth, symbolName). symbolName = name) (packageMap g)"

definition getArgNames :: "generator \<Rightarrow> 'ty Method \<Rightarrow> bool \<Rightarrow> string list" where
  "getArgNames g m inp =
     (let params = (if inp then In m else Out m);
          argNames = map (\<lambda>(i, p).
              if PName p = [] \<or> PName p = ''_'' \<or> nameExistsAsPackage g (PName p)
              then ''arg'' @ Itoa i else PName p) (enumerate 0 params)
      in case Variadic m of
           Some v \<Rightarrow>
             if inp then
               argNames @ [if PName v = [] \<or> nameExistsAsPackage g (PName v)
                           then ''arg'' @ Itoa (length params) else PName v]
             else argNames
         | None \<Rightarrow> argNames)"

definition getArgTypes :: "'ty library \<Rightarrow> generator \<Rightarrow> 'ty Method \<Rightarrow> string \<Rightarrow> bool \<Rightarrow> string list" where
  "getArgTypes lib g m pkgOverride inp =
     (let params = (if inp then In m else Out m);
          argTypes = map (\<lambda>p. TypeString lib (PType p) (map_of (packageMap g)) pkgOverride) params
      in case Variadic m of
           Some v \<Rightarrow> argTypes @ [''...'' @ TypeString lib (PType v) (map_of (packageMap g)) pkgOverride]
         | None \<Rightarrow> argTypes)"

text \<open>
  \<^verbatim>\<open>makeArgString\<close>: the loop reads \<^verbatim>\<open>argTypes[i]\<close> for every index of \<open>argNames\<close>, and
  panics at the first index \<open>argTypes\<close> does not have.
\<close>

fun makeArgs :: "string list \<Rightarrow> string list \<Rightarrow> error + string list" where
  "makeArgs [] argTypes = Inr []"
| "makeArgs (name # names) [] = Inl IndexOutOfRange"
| "makeArgs (name # names) (ty # tys) =
     (case makeArgs names tys of
        Inl e \<Rightarrow> Inl e
      | Inr args \<Rightarrow>
          Inr ((if tys \<noteq> [] \<and> ty = hd tys then name else name @ '' '' @ ty) # args))"

definition makeArgString :: "string list \<Rightarrow> string list \<Rightarrow> error + string" where
  "makeArgString argNames argTypes =
     (case makeArgs argNames argTypes of Inl e \<Rightarrow> Inl e | Inr args \<Rightarrow> Inr (Join args '', ''))"

definition mockName :: "generator \<Rightarrow> string \<Rightarrow> string" where
  "mockName g typeName =
     (case mockNames g typeName of Some n \<Rightarrow> n | None \<Rightarrow> ''Mock'' @ typeName)"

definition formattedTypeParams :: "'ty library \<Rightarrow> generator \<Rightarrow> 'ty Interface \<Rightarrow> string \<Rightarrow> string \<times> string" where
  "formattedTypeParams lib g it pkgOverride =
     (if length (TypeParams it) = 0 then ([], [])
      else
        (''['' @ concat (map (\<lambda>(i, v). (if i \<noteq> 0 then '', '' else []) @ PName v @
                 '' '' @ TypeString lib (PType v) (map_of (packageMap g)) pkgOverride)
               (enumerate 0 (TypeParams it))) @ '']'',
         ''['' @ concat (map (\<lambda>(i, v). (if i \<noteq> 0 then '', '' else []) @ PName v)
               (enumerate 0 (TypeParams it))) @ '']''))"

subsection \<open>The three blocks of a method\<close>

text \<open>
  The loop of \<^verbatim>\<open>GenerateMockMethod\<close> over the rendered return types:
  \<^verbatim>\<open>retNames[i] = ia.allocateIdentifier(fmt.Sprintf("ret%d", i))
  g.p("%s, _ := %s[%d].(%s)", retNames[i], idRet, i, t)\<close>
\<close>

fun retNames_loop ::
  "string \<Rightarrow> identifierAllocator \<Rightarrow> (nat \<times> string) list \<Rightarrow> string list \<times> action list" where
  "retNames_loop idRet ia [] = ([], [])"
| "retNames_loop idRet ia ((i, t) # rest) =
     (let (retName, ia) = allocateIdentifier ia (''ret'' @ Itoa i);
          (retNames, acts) = retNames_loop idRet ia rest
      in (retName # retNames,
          Emit (retName @ '', _ := '' @ idRet @ ''['' @ Itoa i @ ''].('' @ t @ '')'') # acts))"

text \<open>
  \<^verbatim>\<open>GenerateMockMethod\<close>. With a variadic parameter \<open>argNames\<close> ends with its name, so
  the slice expressions \<^verbatim>\<open>argNames[:len(argNames)-1]\<close> and \<^verbatim>\<open>argNames[len(argNames)-1]\<close>
  are \<^const>\<open>butlast\<close> and \<^const>\<open>last\<close> of a non-empty list.
\<close>

definition GenerateMockMethod_body ::
  "'ty library \<Rightarrow> generator \<Rightarrow> string \<Rightarrow> 'ty Method \<Rightarrow> string \<Rightarrow> string \<Rightarrow> error + action list" where
  "GenerateMockMethod_body lib g mockType m pkgOverride shortTp =
     (let argNames = getArgNames g m True;
          argTypes = getArgTypes lib g m pkgOverride True
      in case makeArgString argNames argTypes of
           Inl e \<Rightarrow> Inl e
         | Inr argString \<Rightarrow> Inr (
             let rets = map (\<lambda>p. TypeString lib (PType p) (map_of (packageMap g)) pkgOverride) (Out m);
                 retString = Join rets '', '';
                 retString = (if length rets > 1 then ''('' @ retString @ '')'' else retString);
                 retString = (if retString \<noteq> [] then '' '' @ retString else retString);
                 ia = newIdentifierAllocator argNames;
                 (idRecv, ia) = allocateIdentifier ia ''m''
             in
               [Emit (''// '' @ MName m @ '' mocks base method.''),
                Emit (''func ('' @ idRecv @ '' *'' @ mockType @ shortTp @ '') '' @ MName m @
                      ''('' @ argString @ '')'' @ retString @ '' {''),
                Indent,
                Emit (idRecv @ ''.ctrl.T.Helper()'')] @
               (let (callArgs, acts, ia) =
                      (case Variadic m of
                         None \<Rightarrow>
                           ((if length argNames > 0 then '', '' @ Join argNames '', '' else []), [], ia)
                       | Some v \<Rightarrow>
                           (let (idVarArgs, ia) = allocateIdentifier ia ''varargs'';
                                (idVArg, ia) = allocateIdentifier ia ''a''
                            in ('', '' @ idVarArgs @ ''...'',
                                [Emit (idVarArgs @ '' := []any{'' @ Join (butlast argNames) '', '' @ ''}''),
                                 Emit (''for _, '' @ idVArg @ '' := range '' @ last argNames @ '' {''),
                                 Indent,
                                 Emit (idVarArgs @ '' = append('' @ idVarArgs @ '', '' @ idVArg @ '')''),
                                 Dedent,
                                 Emit ''}''],
                                ia)))
                in acts @
                   (if length (Out m) = 0 then
                      [Emit (idRecv @ ''.ctrl.Call('' @ idRecv @ '', '' @ Quote lib (MName m) @ callArgs @ '')'')]
                    else
                      (let (idRet, ia) = allocateIdentifier ia ''ret'';
                           (retNames, retActs) = retNames_loop idRet ia (enumerate 0 rets)
                       in [Emit (idRet @ '' := '' @ idRecv @ ''.ctrl.Call('' @ idRecv @ '', '' @
                                 Quote lib (MName m) @ callArgs @ '')'')] @
                          retActs @
                          [Emit (''return '' @ Join retNames '', '')]))) @
               [Dedent,
                Emit ''}'']))"

definition GenerateMockMethod ::
  "'ty library \<Rightarrow> generator \<Rightarrow> string \<Rightarrow> 'ty Method \<Rightarrow> string \<Rightarrow> string \<Rightarrow> error + generator" where
  "GenerateMockMethod lib g mockType m pkgOverride shortTp =
     (case GenerateMockMethod_body lib g mockType m pkgOverride shortTp of
        Inl e \<Rightarrow> Inl e
      | Inr acts \<Rightarrow> Inr (exec g acts))"

definition GenerateMockRecorderMethod_body ::
  "generator \<Rightarrow> 'ty Interface \<Rightarrow> 'ty Method \<Rightarrow> string \<Rightarrow> bool \<Rightarrow> action list" where
  "GenerateMockRecorderMethod_body g intf m shortTp typed =
     (let mockType = mockName g (IName intf);
          argNames = getArgNames g m True;
          argString = (case Variadic m of
                         None \<Rightarrow> Join argNames '', ''
                       | Some v \<Rightarrow> Join (butlast argNames) '', '');
          argString = (if argString \<noteq> [] then argString @ '' any'' else argString);
          argString = (case Variadic m of
                         None \<Rightarrow> argString
                       | Some v \<Rightarrow> (if argString \<noteq> [] then argString @ '', '' else argString) @
                                   last argNames @ '' ...any'');
          ia = newIdentifierAllocator argNames;
          (idRecv, ia) = allocateIdentifier ia ''mr''
      in
        [Emit (''// '' @ MName m @ '' indicates an expected call of '' @ MName m @ ''.''),
         (if typed then
            Emit (''func ('' @ idRecv @ '' *'' @ mockType @ ''MockRecorder'' @ shortTp @ '') '' @
                  MName m @ ''('' @ argString @ '') *'' @ mockType @ MName m @ ''Call'' @ shortTp @ '' {'')
          else
            Emit (''func ('' @ idRecv @ '' *'' @ mockType @ ''MockRecorder'' @ shortTp @ '') '' @
                  MName m @ ''('' @ argString @ '') *gomock.Call {'')),
         Indent,
         Emit (idRecv @ ''.mock.ctrl.T.Helper()'')] @
        (let (callArgs, acts) =
               (case Variadic m of
                  None \<Rightarrow>
                    ((if length argNames > 0 then '', '' @ Join argNames '', '' else []), [])
                | Some v \<Rightarrow>
                    if length argNames = 1 then ('', '' @ hd argNames @ ''...'', [])
                    else
                      (let (idVarArgs, ia) = allocateIdentifier ia ''varargs''
                       in ('', '' @ idVarArgs @ ''...'',
                           [Emit (idVarArgs @ '' := append([]any{'' @ Join (butlast argNames) '', '' @
                                  ''}, '' @ last argNames @ ''...)'')])))
         in acts @
            (if typed then
               [Emit (''call := '' @ idRecv @ ''.mock.ctrl.RecordCallWithMethodType('' @ idRecv @
                      ''.mock, '' @ [dquote] @ MName m @ [dquote] @ '', reflect.TypeOf((*'' @
                      mockType @ shortTp @ '')(nil).'' @ MName m @ '')'' @ callArgs @ '')''),
                Emit (''return &'' @ mockType @ MName m @ ''Call'' @ shortTp @ ''{Call: call}'')]
             else
               [Emit (''return '' @ idRecv @ ''.mock.ctrl.RecordCallWithMethodType('' @ idRecv @
                      ''.mock, '' @ [dquote] @ MName m @ [dquote] @ '', reflect.TypeOf((*'' @
                      mockType @ shortTp @ '')(nil).'' @ MName m @ '')'' @ callArgs @ '')'')])) @
        [Dedent,
         Emit ''}''])"

definition GenerateMockRecorderMethod ::
  "generator \<Rightarrow> 'ty Interface \<Rightarrow> 'ty Method \<Rightarrow> string \<Rightarrow> bool \<Rightarrow> generator" where
  "GenerateMockRecorderMethod g intf m shortTp typed =
     exec g (GenerateMockRecorderMethod_body g intf m shortTp typed)"

text \<open>
  In \<^verbatim>\<open>GenerateMockReturnCallMethod\<close> the call of \<^verbatim>\<open>makeArgString\<close> comes after the first
  lines are written; a panic there ends the program, whatever the buffer holds.
\<close>

definition GenerateMockReturnCallMethod_body ::
  "'ty library \<Rightarrow> generator \<Rightarrow> 'ty Interface \<Rightarrow> 'ty Method \<Rightarrow> string \<Rightarrow> string \<Rightarrow> string \<Rightarrow>
   error + action list" where
  "GenerateMockReturnCallMethod_body lib g intf m pkgOverride longTp shortTp =
     (let mockType = mockName g (IName intf);
          argNames = getArgNames g m True;
          retNames = getArgNames g m False;
          argTypes = getArgTypes lib g m pkgOverride True;
          retTypes = getArgTypes lib g m pkgOverride False;
          argString = Join argTypes '', '';
          rets = map (\<lambda>p. TypeString lib (PType p) (map_of (packageMap g)) pkgOverride) (Out m);
          retString = (if length rets = 1 then '' '' @ hd rets
                       else if length rets > 1 then '' ('' @ Join rets '', '' @ '')''
                       else []);
          ia = newIdentifierAllocator argNames;
          (idRecv, ia) = allocateIdentifier ia ''c'';
          recvStructName = mockType @ MName m
      in case makeArgString retNames retTypes of
           Inl e \<Rightarrow> Inl e
         | Inr retArgString \<Rightarrow> Inr (
             let retArgs = (if length retNames > 0 then Join retNames '', '' else [])
             in
               [Emit (''// '' @ mockType @ MName m @ ''Call wrap *gomock.Call''),
                Emit (''type '' @ mockType @ MName m @ ''Call'' @ longTp @ '' struct{''),
                Indent,
                Emit ''*gomock.Call'',
                Dedent,
                Emit ''}'',
                Emit ''// Return rewrite *gomock.Call.Return'',
                Emit (''func ('' @ idRecv @ '' *'' @ recvStructName @ ''Call'' @ shortTp @ '') Return('' @
                      retArgString @ '') *'' @ recvStructName @ ''Call'' @ shortTp @ '' {''),
                Indent,
                Emit (idRecv @ ''.Call =  '' @ idRecv @ ''.Call.Return('' @ retArgs @ '')''),
                Emit (''return '' @ idRecv),
                Dedent,
                Emit ''}'',
                Emit ''// Do rewrite *gomock.Call.Do'',
                Emit (''func ('' @ idRecv @ '' *'' @ recvStructName @ ''Call'' @ shortTp @ '') Do(f func('' @
                      argString @ '')'' @ retString @ '') *'' @ recvStructName @ ''Call'' @ shortTp @ '' {''),
                Indent,
                Emit (idRecv @ ''.Call = '' @ idRecv @ ''.Call.Do(f)''),
                Emit (''return '' @ idRecv),
                Dedent,
                Emit ''}'',
                Emit ''// DoAndReturn rewrite *gomock.Call.DoAndReturn'',
                Emit (''func ('' @ idRecv @ '' *'' @ recvStructName @ ''Call'' @ shortTp @
                      '') DoAndReturn(f func('' @ argString @ '')'' @ retString @ '') *'' @
                      recvStructName @ ''Call'' @ shortTp @ '' {''),
                Indent,
                Emit (idRecv @ ''.Call = '' @ idRecv @ ''.Call.DoAndReturn(f)''),
                Emit (''return '' @ idRecv),
                Dedent,
                Emit ''}'']))"

definition GenerateMockReturnCallMethod ::
  "'ty library \<Rightarrow> generator \<Rightarrow> 'ty Interface \<Rightarrow> 'ty Method \<Rightarrow> string \<Rightarrow> string \<Rightarrow> string \<Rightarrow>
   error + generator" where
  "GenerateMockReturnCallMethod lib g intf m pkgOverride longTp shortTp =
     (case GenerateMockReturnCallMethod_body lib g intf m pkgOverride longTp shortTp of
        Inl e \<Rightarrow> Inl e
      | Inr acts \<Rightarrow> Inr (exec g acts))"

text \<open>
  \<^verbatim>\<open>GenerateMockMethods\<close> sorts \<^verbatim>\<open>intf.Methods\<close> in place by method name and then visits
  the sorted slice. \<^verbatim>\<open>sort.Sort\<close> is modelled by the insertion sort \<^const>\<open>sort_key\<close>;
  methods of one interface have distinct names, and then every sorting algorithm gives this
  result. The returned interface is the one the caller's model holds afterwards.
\<close>

fun GenerateMockMethods_loop ::
  "'ty library \<Rightarrow> string \<Rightarrow> 'ty Interface \<Rightarrow> string \<Rightarrow> string \<Rightarrow> string \<Rightarrow> bool \<Rightarrow>
   'ty Method list \<Rightarrow> generator \<Rightarrow> error + generator" where
  "GenerateMockMethods_loop lib mockType intf pkgOverride longTp shortTp typed [] g = Inr g"
| "GenerateMockMethods_loop lib mockType intf pkgOverride longTp shortTp typed (m # ms) g =
     (case GenerateMockMethod lib (g_p g []) mockType m pkgOverride shortTp of
        Inl e \<Rightarrow> Inl e
      | Inr g \<Rightarrow>
          (case (if typed then
                   GenerateMockReturnCallMethod lib
                     (g_p (GenerateMockRecorderMethod (g_p g []) intf m shortTp typed) [])
                     intf m pkgOverride longTp shortTp
                 else Inr (GenerateMockRecorderMethod (g_p g []) intf m shortTp typed)) of
             Inl e \<Rightarrow> Inl e
           | Inr g \<Rightarrow>
               GenerateMockMethods_loop lib mockType intf pkgOverride longTp shortTp typed ms g))"

definition GenerateMockMethods ::
  "'ty library \<Rightarrow> generator \<Rightarrow> string \<Rightarrow> 'ty Interface \<Rightarrow> string \<Rightarrow> string \<Rightarrow> string \<Rightarrow> bool \<Rightarrow>
   error + generator \<times> 'ty Interface" where
  "GenerateMockMethods lib g mockType intf pkgOverride longTp shortTp typed =
     (let intf = intf\<lparr>Methods := sort_key MName (Methods intf)\<rparr>
      in case GenerateMockMethods_loop lib mockType intf pkgOverride longTp shortTp typed (Methods intf) g of
           Inl e \<Rightarrow> Inl e
         | Inr g \<Rightarrow> Inr (g, intf))"

text \<open>The lines \<^verbatim>\<open>GenerateMockInterface\<close> writes before it calls \<^verbatim>\<open>GenerateMockMethods\<close>.\<close>

definition GenerateMockInterface_body :: "string \<Rightarrow> string \<Rightarrow> string \<Rightarrow> string \<Rightarrow> action list" where
  "GenerateMockInterface_body mockType iname longTp shortTp =
            [Emit [],
             Emit (''// '' @ mockType @ '' is a mock of '' @ iname @ '' interface.''),
             Emit (''type '' @ mockType @ longTp @ '' struct {''),
             Indent,
             Emit ''ctrl     *gomock.Controller'',
             Emit (''recorder *'' @ mockType @ ''MockRecorder'' @ shortTp),
             Emit ''isgomock struct{}'',
             Dedent,
             Emit ''}'',
             Emit [],
             Emit (''// '' @ mockType @ ''MockRecorder is the mock recorder for '' @ mockType @ ''.''),
             Emit (''type '' @ mockType @ ''MockRecorder'' @ longTp @ '' struct {''),
             Indent,
             Emit (''mock *'' @ mockType @ shortTp),
             Dedent,
             Emit ''}'',
             Emit [],
             Emit (''// New'' @ mockType @ '' creates a new mock instance.''),
             Emit (''func New'' @ mockType @ longTp @ ''(ctrl *gomock.Controller) *'' @ mockType @
                   shortTp @ '' {''),
             Indent,
             Emit (''mock := &'' @ mockType @ shortTp @ ''{ctrl: ctrl}''),
             Emit (''mock.recorder = &'' @ mockType @ ''MockRecorder'' @ shortTp @ ''{mock}''),
             Emit ''return mock'',
             Dedent,
             Emit ''}'',
             Emit [],
             Emit ''// EXPECT returns an object that allows the caller to indicate expected use.'',
             Emit (''func (m *'' @ mockType @ shortTp @ '') EXPECT() *'' @ mockType @ ''MockRecorder'' @
                   shortTp @ '' {''),
             Indent,
             Emit ''return m.recorder'',
             Dedent,
             Emit ''}'']"

definition GenerateMockInterface ::
  "flags \<Rightarrow> 'ty library \<Rightarrow> generator \<Rightarrow> 'ty Interface \<Rightarrow> string \<Rightarrow>
   error + generator \<times> 'ty Interface" where
  "GenerateMockInterface cfg lib g intf outputPackagePath =
     (let mockType = mockName g (IName intf);
          (longTp, shortTp) = formattedTypeParams lib g intf outputPackagePath;
          g = exec g (GenerateMockInterface_body mockType (IName intf) longTp shortTp)
      in GenerateMockMethods lib g mockType intf outputPackagePath longTp shortTp (typed_flag cfg))"

subsection \<open>Import aliases\<close>

text \<open>
  \<^verbatim>\<open>createPackageMap\<close> runs \<^verbatim>\<open>go list\<close> and stores the name of every decoded record
  under its import path.
\<close>

definition createPackageMap :: "environment \<Rightarrow> string list \<Rightarrow> (string \<rightharpoonup> string)" where
  "createPackageMap env importPaths =
     foldl (\<lambda>pkgMap (importPath, name). pkgMap(importPath \<mapsto> name)) Map.empty
       (goList env importPaths)"

text \<open>
  The \<^verbatim>\<open>-imports\<close> flag, a comma-separated list of \<open>name=path\<close>:
  \<^verbatim>\<open>eq := strings.Index(kv, "="); if k, v := kv[:eq], kv[eq+1:]; k != "." { definedImports[v] = k }\<close>.
  The slice expression \<^verbatim>\<open>kv[:eq]\<close> panics when there is no \<open>=\<close>.
\<close>

fun definedImports_loop :: "string list \<Rightarrow> (string \<rightharpoonup> string) \<Rightarrow> error + (string \<rightharpoonup> string)" where
  "definedImports_loop [] definedImports = Inr definedImports"
| "definedImports_loop (kv # kvs) definedImports =
     (case Index kv (CHR ''='') of
        None \<Rightarrow> Inl SliceBoundsOutOfRange
      | Some eq \<Rightarrow>
          (let k = take eq kv; v = drop (eq + 1) kv
           in if k \<noteq> ''.'' then definedImports_loop kvs (definedImports(v \<mapsto> k))
              else definedImports_loop kvs definedImports))"

definition parseDefinedImports :: "flags \<Rightarrow> error + (string \<rightharpoonup> string)" where
  "parseDefinedImports cfg =
     (if imports_flag cfg \<noteq> [] then
        definedImports_loop (Split (imports_flag cfg) (CHR '','')) Map.empty
      else Inr Map.empty)"

text \<open>
  The disambiguation loop, with its variables \<open>pkgName\<close> and \<open>i\<close>:
  \<^verbatim>\<open>for localNames[pkgName] || token.Lookup(pkgName).IsKeyword() || pkgName == "any" {
     pkgName = base + strconv.Itoa(i); i++ }\<close>
\<close>

function alias_loop :: "string \<Rightarrow> string list \<Rightarrow> string \<Rightarrow> nat \<Rightarrow> string" where
  "alias_loop base localNames pkgName i =
     (if pkgName \<in> set localNames \<or> IsKeyword pkgName \<or> pkgName = ''any''
      then alias_loop base localNames (base @ Itoa i) (Suc i)
      else pkgName)"
  by pat_completeness auto
termination
proof (relation "measure (\<lambda>(base, localNames, pkgName, i).
         card {j. i \<le> j \<and> base @ Itoa j \<in> set (localNames @ go_keywords @ [''any''])} +
         (if pkgName \<in> set (localNames @ go_keywords @ [''any'']) then 1 else 0))")
  show "wf (measure (\<lambda>(base, localNames, pkgName, i).
         card {j. i \<le> j \<and> base @ Itoa j \<in> set (localNames @ go_keywords @ [''any''])} +
         (if pkgName \<in> set (localNames @ go_keywords @ [''any'']) then 1 else 0)))"
    by simp
next
  fix base :: string and localNames :: "string list" and pkgName :: string and i :: nat
  assume "pkgName \<in> set localNames \<or> IsKeyword pkgName \<or> pkgName = ''any''"
  then have taken: "pkgName \<in> set (localNames @ go_keywords @ [''any''])"
    by (auto simp: IsKeyword_def)
  let ?bad = "set (localNames @ go_keywords @ [''any''])"
  let ?A = "\<lambda>k. {j. k \<le> j \<and> base @ Itoa j \<in> ?bad}"
  have "finite {j. base @ [] @ Itoa j \<in> ?bad}"
    by (rule finite_suffixed)
  then have fin: "finite (?A i)"
    by (rule rev_finite_subset) auto
  show "((base, localNames, base @ Itoa i, Suc i), (base, localNames, pkgName, i))
        \<in> measure (\<lambda>(base, localNames, pkgName, i).
            card {j. i \<le> j \<and> base @ Itoa j \<in> set (localNames @ go_keywords @ [''any''])} +
            (if pkgName \<in> set (localNames @ go_keywords @ [''any'']) then 1 else 0))"
  proof (cases "base @ Itoa i \<in> ?bad")
    case True
    have "i \<in> ?A i" "i \<notin> ?A (Suc i)" "?A (Suc i) \<subseteq> ?A i"
      using True by auto
    then have "?A (Suc i) \<subset> ?A i" by blast
    then have "card (?A (Suc i)) < card (?A i)"
      using fin by (rule psubset_card_mono [rotated])
    with True taken show ?thesis by simp
  next
    case False
    have "card (?A (Suc i)) \<le> card (?A i)"
      using fin by (rule card_mono) auto
    with False taken show ?thesis by simp
  qed
qed

declare alias_loop.simps [simp del]

text \<open>
  One round of the loop over \<open>sortedPaths\<close>, on the pair of \<open>g.packageMap\<close> and
  \<open>localNames\<close> (a set of names, kept as the list of its members).
\<close>

definition assignAlias ::
  "'ty library \<Rightarrow> (string \<rightharpoonup> string) \<Rightarrow> (string \<rightharpoonup> string) \<Rightarrow> string \<Rightarrow> string \<Rightarrow>
   (string \<times> string) list \<times> string list \<Rightarrow> string \<Rightarrow> (string \<times> string) list \<times> string list" where
  "assignAlias lib packagesName definedImports pkgPath outputPackagePath st pth =
     (let (pm, localNames) = st;
          base = (case packagesName pth of Some b \<Rightarrow> b | None \<Rightarrow> sanitize lib (path_Base pth));
          pkgName = base;
          pkgName = (case definedImports pth of Some d \<Rightarrow> d | None \<Rightarrow> pkgName);
          pkgName = alias_loop base localNames pkgName 0
      in if pth = pkgPath \<and> outputPackagePath = pkgPath then (pm, localNames)
         else (AList.update pth pkgName pm, List.insert pkgName localNames))"

text \<open>
  The required imports: the keys of \<^verbatim>\<open>pkg.Imports()\<close>, the gomock package, and
  \<open>reflect\<close> when some interface has a method; sorted by \<^verbatim>\<open>sort.Strings\<close>.
\<close>

definition sortedPaths :: "'ty Package \<Rightarrow> string list" where
  "sortedPaths pkg =
     (let im = remdups (Imports pkg);
          im = List.insert gomockImportPath im;
          im = (if list_ex (\<lambda>intf. length (Methods intf) > 0) (Interfaces pkg)
                then List.insert ''reflect'' im else im)
      in sort im)"

subsection \<open>Generate and Output\<close>

fun GenerateMockInterfaces_loop ::
  "flags \<Rightarrow> 'ty library \<Rightarrow> string \<Rightarrow> 'ty Interface list \<Rightarrow> generator \<Rightarrow>
   error + generator \<times> 'ty Interface list" where
  "GenerateMockInterfaces_loop cfg lib outputPackagePath [] g = Inr (g, [])"
| "GenerateMockInterfaces_loop cfg lib outputPackagePath (intf # intfs) g =
     (case GenerateMockInterface cfg lib g intf outputPackagePath of
        Inl e \<Rightarrow> Inl e
      | Inr (g, intf') \<Rightarrow>
          (case GenerateMockInterfaces_loop cfg lib outputPackagePath intfs g of
             Inl e \<Rightarrow> Inl e
           | Inr (g, intfs') \<Rightarrow> Inr (g, intf' # intfs')))"

text \<open>
  The body of \<^verbatim>\<open>Generate\<close> in the order of the source: the header comments, the echo
  of the command line, the alias of every import path, the package clause with the import
  block, the interfaces.
\<close>

text \<open>
  The first statement of \<^verbatim>\<open>Generate\<close>: the output package path is reset unless the
  output package has the name of the source package or \<^verbatim>\<open>-self_package\<close> is given.
\<close>

definition resetOutputPackagePath :: "flags \<Rightarrow> 'ty Package \<Rightarrow> string \<Rightarrow> string \<Rightarrow> string" where
  "resetOutputPackagePath cfg pkg outputPkgName outputPackagePath =
     (if outputPkgName \<noteq> PkgName pkg \<and> selfPackage cfg = [] then [] else outputPackagePath)"

definition Generate_header :: "flags \<Rightarrow> generator \<Rightarrow> action list" where
  "Generate_header cfg g =
     (if copyrightHeader g \<noteq> [] then
        map (\<lambda>line. Emit (''// '' @ line)) (Split (copyrightHeader g) nl) @ [Emit []]
      else []) @
     (if buildConstraint g \<noteq> [] then
        [Emit (''//go:build '' @ buildConstraint g), Emit []]
      else []) @
     [Emit ''// Code generated by MockGen. DO NOT EDIT.''] @
     (if writeSourceComment cfg then
        (if filename g \<noteq> [] then [Emit (''// Source: '' @ filename g)]
         else [Emit (''// Source: '' @ srcPackage g @ '' (interfaces: '' @ srcInterfaces g @ '')'')])
      else [])"

text \<open>\<^verbatim>\<open>os.Args[0]\<close> panics when \<^verbatim>\<open>os.Args\<close> is empty.\<close>

definition Generate_command :: "flags \<Rightarrow> environment \<Rightarrow> error + action list" where
  "Generate_command cfg env =
     (if writeCmdComment cfg then
        (case Args env of
           [] \<Rightarrow> Inl IndexOutOfRange
         | arg0 # args \<Rightarrow> Inr (
             let name = filepath_Base env arg0;
                 name = (if GOOS env = ''windows'' then TrimSuffix name ''.exe'' else name)
             in [Emit ''//'',
                 Emit ''// Generated by this command:'',
                 Emit ''//'',
                 Emit (''//'' @ [tab] @ Join (name # args) '' ''),
                 Emit ''//'']))
      else Inr [])"

text \<open>
  The import block ranges over \<open>g.packageMap\<close>, in the order \<open>rangeOrder\<close> gives, and
  then over \<^verbatim>\<open>pkg.DotImports\<close>.
\<close>

definition Generate_package ::
  "flags \<Rightarrow> environment \<Rightarrow> 'ty library \<Rightarrow> generator \<Rightarrow> 'ty Package \<Rightarrow> string \<Rightarrow> string \<Rightarrow> action list" where
  "Generate_package cfg env lib g pkg outputPkgName outputPackagePath =
     [Emit []] @
     (if writePkgComment cfg then
        [Emit (''// Package '' @ outputPkgName @ '' is a generated GoMock package.'')]
      else []) @
     [Emit (''package '' @ outputPkgName),
      Emit [],
      Emit ''import ('',
      Indent] @
     concat (map (\<lambda>(pkgPath, pkgName).
         if pkgPath = outputPackagePath then []
         else [Emit (pkgName @ '' '' @ Quote lib pkgPath)])
       (rangeOrder env (packageMap g))) @
     map (\<lambda>pkgPath. Emit (''. '' @ Quote lib pkgPath)) (DotImports pkg) @
     [Dedent,
      Emit '')''] @
     (if writeGenerateDirective cfg then
        [Emit (''//go:generate '' @ Join (Args env) '' '')]
      else [])"

text \<open>
  \<^verbatim>\<open>Generate\<close> returns the generator and the package model as they are afterwards:
  the interfaces are reached through pointers, so what \<^verbatim>\<open>GenerateMockMethods\<close> does to
  their method slices is done to the caller's model.
\<close>

definition Generate ::
  "flags \<Rightarrow> environment \<Rightarrow> 'ty library \<Rightarrow> generator \<Rightarrow> 'ty Package \<Rightarrow> string \<Rightarrow> string \<Rightarrow>
   error + generator \<times> 'ty Package" where
  "Generate cfg env lib g pkg outputPkgName outputPackagePath =
     (let outputPackagePath = resetOutputPackagePath cfg pkg outputPkgName outputPackagePath;
          g = exec g (Generate_header cfg g)
      in case Generate_command cfg env of
           Inl e \<Rightarrow> Inl e
         | Inr acts \<Rightarrow>
             (let g = exec g acts;
                  packagesName = createPackageMap env (sortedPaths pkg)
              in case parseDefinedImports cfg of
                   Inl e \<Rightarrow> Inl e
                 | Inr definedImports \<Rightarrow>
                     (let (pm, localNames) =
                            foldl (assignAlias lib packagesName definedImports (PkgPath pkg) outputPackagePath)
                              ([], []) (sortedPaths pkg);
                          g = g\<lparr>packageMap := pm\<rparr>;
                          g = exec g (Generate_package cfg env lib g pkg outputPkgName outputPackagePath)
                      in case GenerateMockInterfaces_loop cfg lib outputPackagePath
                                (Interfaces pkg) g of
                           Inl e \<Rightarrow> Inl e
                         | Inr (g, intfs) \<Rightarrow> Inr (g, pkg\<lparr>Interfaces := intfs\<rparr>))))"

text \<open>
  \<^verbatim>\<open>Output\<close> hands the buffer to \<^verbatim>\<open>imports.Process\<close> of \<^verbatim>\<open>golang.org/x/tools\<close>, here
  the parameter \<open>process\<close>; when that fails the program exits (\<open>None\<close>).
\<close>

definition Output :: "(string \<Rightarrow> string \<Rightarrow> string option) \<Rightarrow> generator \<Rightarrow> string option" where
  "Output process g = process (destination g) (buf g)"

section \<open>Notions used to state the properties\<close>

text \<open>
  The text a list of writes produces from an indentation, and the indentation it leaves;
  the writes of one method and of one interface; the aliases \<^verbatim>\<open>Generate\<close> assigns; all
  the writes of \<^verbatim>\<open>Generate\<close>. The lemmas of the next section show that the generator
  functions compute exactly these.
\<close>

fun render :: "string \<Rightarrow> action list \<Rightarrow> string" where
  "render ind [] = []"
| "render ind (Emit line # acts) = ind @ line @ [nl] @ render ind acts"
| "render ind (Indent # acts) = render (ind @ [tab]) acts"
| "render ind (Dedent # acts) = render (butlast ind) acts"

fun indent_after :: "string \<Rightarrow> action list \<Rightarrow> string" where
  "indent_after ind [] = ind"
| "indent_after ind (Emit line # acts) = indent_after ind acts"
| "indent_after ind (Indent # acts) = indent_after (ind @ [tab]) acts"
| "indent_after ind (Dedent # acts) = indent_after (butlast ind) acts"

definition method_actions ::
  "'ty library \<Rightarrow> generator \<Rightarrow> string \<Rightarrow> 'ty Interface \<Rightarrow> string \<Rightarrow> string \<Rightarrow> string \<Rightarrow> bool \<Rightarrow>
   'ty Method \<Rightarrow> action list" where
  "method_actions lib g mockType intf pkgOverride longTp shortTp typed m =
     [Emit []] @ projr (GenerateMockMethod_body lib g mockType m pkgOverride shortTp) @
     [Emit []] @ GenerateMockRecorderMethod_body g intf m shortTp typed @
     (if typed then
        [Emit []] @ projr (GenerateMockReturnCallMethod_body lib g intf m pkgOverride longTp shortTp)
      else [])"

definition interface_actions ::
  "flags \<Rightarrow> 'ty library \<Rightarrow> generator \<Rightarrow> string \<Rightarrow> 'ty Interface \<Rightarrow> action list" where
  "interface_actions cfg lib g outputPackagePath intf =
     GenerateMockInterface_body (mockName g (IName intf)) (IName intf)
       (fst (formattedTypeParams lib g intf outputPackagePath))
       (snd (formattedTypeParams lib g intf outputPackagePath)) @
     concat (map (method_actions lib g (mockName g (IName intf)) intf outputPackagePath
                    (fst (formattedTypeParams lib g intf outputPackagePath))
                    (snd (formattedTypeParams lib g intf outputPackagePath)) (typed_flag cfg))
               (sort_key MName (Methods intf)))"

definition sortMethods :: "'ty Interface \<Rightarrow> 'ty Interface" where
  "sortMethods intf = intf\<lparr>Methods := sort_key MName (Methods intf)\<rparr>"

definition resolveAliases ::
  "environment \<Rightarrow> 'ty library \<Rightarrow> (string \<rightharpoonup> string) \<Rightarrow> 'ty Package \<Rightarrow> string \<Rightarrow> (string \<times> string) list" where
  "resolveAliases env lib definedImports pkg outputPackagePath =
     fst (foldl (assignAlias lib (createPackageMap env (sortedPaths pkg)) definedImports (PkgPath pkg)
                   outputPackagePath)
            ([], []) (sortedPaths pkg))"

definition Generate_actions ::
  "flags \<Rightarrow> environment \<Rightarrow> 'ty library \<Rightarrow> generator \<Rightarrow> 'ty Package \<Rightarrow> string \<Rightarrow> string \<Rightarrow> action list \<Rightarrow> action list" where
  "Generate_actions cfg env lib g pkg outputPkgName outputPackagePath cmd =
     Generate_header cfg g @ cmd @
     Generate_package cfg env lib g pkg outputPkgName outputPackagePath @
     concat (map (interface_actions cfg lib g outputPackagePath) (Interfaces pkg))"

text \<open>The invariant of the loop that assigns the aliases.\<close>

definition alias_inv :: "(string \<times> string) list \<times> string list \<Rightarrow> bool" where
  "alias_inv st \<longleftrightarrow>
     snd ` set (fst st) \<subseteq> set (snd st) \<and> distinct (map fst (fst st)) \<and> distinct (map snd (fst st)) \<and>
     (\<forall>a \<in> snd ` set (fst st). \<not> IsKeyword a \<and> a \<noteq> ''any'')"


subsection \<open>The draft as text\<close>

text \<open>
  The text that \<^verbatim>\<open>Generate\<close> appends, with the aliased lines of the import block kept
  apart: \<open>es\<close> are the entries of the alias map in the order in which the \<^verbatim>\<open>range\<close>
  statement visits them.
\<close>

definition alias_lines :: "'ty library \<Rightarrow> string \<Rightarrow> (string \<times> string) list \<Rightarrow> string" where
  "alias_lines lib ind es =
     concat (map (\<lambda>(pkgPath, pkgName). ind @ [tab] @ pkgName @ '' '' @ Quote lib pkgPath @ [nl]) es)"

definition dot_lines :: "'ty library \<Rightarrow> string \<Rightarrow> string list \<Rightarrow> string" where
  "dot_lines lib ind pths =
     concat (map (\<lambda>pkgPath. ind @ [tab] @ ''. '' @ Quote lib pkgPath @ [nl]) pths)"

definition Generate_draft ::
  "flags \<Rightarrow> environment \<Rightarrow> 'ty library \<Rightarrow> generator \<Rightarrow> 'ty Package \<Rightarrow> string \<Rightarrow> string \<Rightarrow>
   (string \<times> string) list \<Rightarrow> string" where
  "Generate_draft cfg env lib g pkg outputPkgName outputPackagePath es =
     buf g @
     render (indent g)
       (Generate_header cfg g @ projr (Generate_command cfg env) @
        [Emit []] @
        (if writePkgComment cfg then
           [Emit (''// Package '' @ outputPkgName @ '' is a generated GoMock package.'')]
         else []) @
        [Emit (''package '' @ outputPkgName),
         Emit [],
         Emit ''import ('']) @
     alias_lines lib (indent g) es @
     dot_lines lib (indent g) (DotImports pkg) @
     render (indent g)
       ([Emit '')''] @
        (if writeGenerateDirective cfg then
           [Emit (''//go:generate '' @ Join (Args env) '' '')]
         else [])) @
     concat (map (\<lambda>intf. render (indent g) (interface_actions cfg lib g outputPackagePath intf))
               (Interfaces pkg))"



subsection \<open>Rendering with a fixed alias map and override\<close>


section \<open>Concrete inputs\<close>

text \<open>
  A generator as \<^verbatim>\<open>main\<close> creates it, flags with every optional comment switched off, and
  an environment in which \<^verbatim>\<open>go list\<close> knows no package and a \<^verbatim>\<open>range\<close> statement visits
  a map in the order of insertion, and a library in which every type renders as \<open>int\<close>,
  no rune beyond ASCII is a letter or a digit, and a string beyond ASCII is quoted as it is.
\<close>

definition ex_generator :: generator where
  "ex_generator = \<lparr>buf = [], indent = [], mockNames = Map.empty, filename = [], destination = [],
     srcPackage = [], srcInterfaces = [], copyrightHeader = [], buildConstraint = [], packageMap = []\<rparr>"

definition ex_flags :: flags where
  "ex_flags = \<lparr>selfPackage = [], writeCmdComment = False, writePkgComment = False,
     writeSourceComment = False, writeGenerateDirective = False, typed_flag = False, imports_flag = []\<rparr>"

definition ex_env :: environment where
  "ex_env = \<lparr>Args = [''mockgen''], GOOS = ''linux'', filepath_Base = path_Base,
     goList = (\<lambda>importPaths. []), rangeOrder = (\<lambda>m. m)\<rparr>"

definition ex_lib :: "unit library" where
  "ex_lib = \<lparr>TypeString = (\<lambda>t pm pkgOverride. ''int''),
     strconv_Quote = (\<lambda>s. [dquote] @ s @ [dquote]),
     unicode_IsLetter = (\<lambda>r. False), unicode_IsDigit = (\<lambda>r. False)\<rparr>"

text \<open>A package without interfaces that imports two packages called \<open>template\<close>.\<close>

definition ex_templates :: "unit Package" where
  "ex_templates = \<lparr>PkgName = ''foo'', PkgPath = ''example.com/foo'', Interfaces = [],
     DotImports = [], Imports = [''text/template'', ''html/template'']\<rparr>"

text \<open>An interface whose methods are not in the order of their names.\<close>

definition ex_unsorted :: "unit Package" where
  "ex_unsorted = \<lparr>PkgName = ''foo'', PkgPath = ''example.com/foo'',
     Interfaces = [\<lparr>IName = ''I'',
                    Methods = [\<lparr>MName = ''B'', In = [], Out = [], Variadic = None\<rparr>,
                               \<lparr>MName = ''A'', In = [], Out = [], Variadic = None\<rparr>],
                    TypeParams = []\<rparr>],
     DotImports = [], Imports = []\<rparr>"

text \<open>Two interfaces without methods, not in the order of their names.\<close>

definition ex_two :: "unit Package" where
  "ex_two = \<lparr>PkgName = ''foo'', PkgPath = ''example.com/foo'',
     Interfaces = [\<lparr>IName = ''Z'', Methods = [], TypeParams = []\<rparr>,
                   \<lparr>IName = ''A'', Methods = [], TypeParams = []\<rparr>],
     DotImports = [], Imports = []\<rparr>"


text \<open>
  A package that imports itself, and dot-imports one package twice, itself, and the gomock
  package.
\<close>

definition ex_dot :: "unit Package" where
  "ex_dot = \<lparr>PkgName = ''foo'', PkgPath = ''example.com/foo'', Interfaces = [],
     DotImports = [''example.com/bar'', ''example.com/bar'', ''example.com/foo'',
                   ''go.uber.org/mock/gomock''],
     Imports = [''example.com/foo'']\<rparr>"



section \<open>The generator functions as lists of writes\<close>

lemma exec1_fields [simp]:
  "packageMap (exec1 g a) = packageMap g" "mockNames (exec1 g a) = mockNames g"
  "destination (exec1 g a) = destination g"
  by (cases a; simp add: g_p_def g_in_def g_out_def)+

lemma foldl_exec1_fields:
  "packageMap (foldl exec1 g acts) = packageMap g \<and> mockNames (foldl exec1 g acts) = mockNames g \<and>
   destination (foldl exec1 g acts) = destination g"
  by (induction acts arbitrary: g) simp_all

lemma exec_packageMap [simp]: "packageMap (exec g acts) = packageMap g"
  and exec_mockNames [simp]: "mockNames (exec g acts) = mockNames g"
  and exec_destination [simp]: "destination (exec g acts) = destination g"
  by (simp_all add: exec_def foldl_exec1_fields)

lemma exec_append: "exec g (xs @ ys) = exec (exec g xs) ys"
  by (simp add: exec_def)

lemma exec_Nil [simp]: "exec g [] = g"
  by (simp add: exec_def)

lemma g_p_fields [simp]:
  "packageMap (g_p g line) = packageMap g" "mockNames (g_p g line) = mockNames g"
  "indent (g_p g line) = indent g" "destination (g_p g line) = destination g"
  by (simp_all add: g_p_def)

lemma GenerateMockMethod_packageMap:
  "GenerateMockMethod lib g mockType m pkgOverride shortTp = Inr g' \<Longrightarrow>
   packageMap g' = packageMap g \<and> mockNames g' = mockNames g \<and> destination g' = destination g"
  by (auto simp: GenerateMockMethod_def split: sum.splits)

lemma GenerateMockRecorderMethod_packageMap [simp]:
  "packageMap (GenerateMockRecorderMethod g intf m shortTp typed) = packageMap g"
  "mockNames (GenerateMockRecorderMethod g intf m shortTp typed) = mockNames g"
  "destination (GenerateMockRecorderMethod g intf m shortTp typed) = destination g"
  by (simp_all add: GenerateMockRecorderMethod_def)

lemma GenerateMockReturnCallMethod_packageMap:
  "GenerateMockReturnCallMethod lib g intf m pkgOverride longTp shortTp = Inr g' \<Longrightarrow>
   packageMap g' = packageMap g \<and> mockNames g' = mockNames g \<and> destination g' = destination g"
  by (auto simp: GenerateMockReturnCallMethod_def split: sum.splits)

lemma GenerateMockMethods_loop_packageMap:
  "GenerateMockMethods_loop lib mockType intf pkgOverride longTp shortTp typed ms g = Inr g' \<Longrightarrow>
   packageMap g' = packageMap g \<and> mockNames g' = mockNames g \<and> destination g' = destination g"
proof (induction ms arbitrary: g)
  case Nil
  then show ?case by simp
next
  case (Cons m ms)
  from Cons.prems obtain g1 g2 where
    g1: "GenerateMockMethod lib (g_p g []) mockType m pkgOverride shortTp = Inr g1" and
    g2: "(if typed then
            GenerateMockReturnCallMethod lib
              (g_p (GenerateMockRecorderMethod (g_p g1 []) intf m shortTp typed) [])
              intf m pkgOverride longTp shortTp
          else Inr (GenerateMockRecorderMethod (g_p g1 []) intf m shortTp typed)) = Inr g2" and
    rest: "GenerateMockMethods_loop lib mockType intf pkgOverride longTp shortTp typed ms g2 = Inr g'"
    by (auto split: sum.splits)
  from g1 have f1: "packageMap g1 = packageMap g \<and> mockNames g1 = mockNames g \<and> destination g1 = destination g"
    by (auto dest: GenerateMockMethod_packageMap)
  from g2 have f2: "packageMap g2 = packageMap g1 \<and> mockNames g2 = mockNames g1 \<and> destination g2 = destination g1"
    by (auto dest: GenerateMockReturnCallMethod_packageMap split: if_splits)
  from Cons.IH [OF rest] f1 f2 show ?case by simp
qed

lemma GenerateMockInterface_packageMap:
  "GenerateMockInterface cfg lib g intf outputPackagePath = Inr (g', intf') \<Longrightarrow>
   packageMap g' = packageMap g \<and> mockNames g' = mockNames g \<and> destination g' = destination g"
  by (auto simp: GenerateMockInterface_def GenerateMockMethods_def Let_def
           split: sum.splits prod.splits dest!: GenerateMockMethods_loop_packageMap)

lemma GenerateMockInterfaces_loop_packageMap:
  "GenerateMockInterfaces_loop cfg lib outputPackagePath intfs g = Inr (g', intfs') \<Longrightarrow>
   packageMap g' = packageMap g \<and> mockNames g' = mockNames g \<and> destination g' = destination g"
proof (induction intfs arbitrary: g g' intfs')
  case Nil
  then show ?case by simp
next
  case (Cons intf intfs)
  from Cons.prems obtain g1 intf1 intfs1 where
    g1: "GenerateMockInterface cfg lib g intf outputPackagePath = Inr (g1, intf1)" and
    rest: "GenerateMockInterfaces_loop cfg lib outputPackagePath intfs g1 = Inr (g', intfs1)"
    by (auto split: sum.splits prod.splits)
  from GenerateMockInterface_packageMap [OF g1] Cons.IH [OF rest] show ?case by simp
qed

lemma g_out_butlast: "g_out g = g\<lparr>indent := butlast (indent g)\<rparr>"
  by (cases "indent g") (simp_all add: g_out_def)

lemma exec_render:
  "exec g acts = g\<lparr>buf := buf g @ render (indent g) acts, indent := indent_after (indent g) acts\<rparr>"
proof (induction acts arbitrary: g)
  case Nil
  show ?case by (simp add: exec_def)
next
  case (Cons a acts)
  have step: "exec g (a # acts) = exec (exec1 g a) acts" by (simp add: exec_def)
  show ?case
    unfolding step Cons.IH
    by (cases a) (simp_all add: g_p_def g_in_def g_out_butlast)
qed

lemma render_append: "render ind (xs @ ys) = render ind xs @ render (indent_after ind xs) ys"
  by (induction ind xs rule: render.induct) simp_all

lemma indent_after_append: "indent_after ind (xs @ ys) = indent_after (indent_after ind xs) ys"
  by (induction ind xs rule: indent_after.induct) simp_all

lemma exec_update_packageMap: "(exec g acts)\<lparr>packageMap := pm\<rparr> = exec (g\<lparr>packageMap := pm\<rparr>) acts"
  by (simp add: exec_render)

lemma exec_update_buf: "exec (g\<lparr>buf := b\<rparr>) acts = (exec g acts)\<lparr>buf := b @ render (indent g) acts\<rparr>"
  by (simp add: exec_render)

text \<open>The bodies read only \<open>packageMap\<close> and \<open>mockNames\<close> of the generator.\<close>

lemma getArgNames_cong:
  assumes "packageMap g1 = packageMap g2"
  shows "getArgNames g1 m inp = getArgNames g2 m inp"
  unfolding getArgNames_def nameExistsAsPackage_def assms ..

lemma getArgTypes_cong:
  assumes "packageMap g1 = packageMap g2"
  shows "getArgTypes lib g1 m po inp = getArgTypes lib g2 m po inp"
  unfolding getArgTypes_def assms ..

lemma mockName_cong:
  assumes "mockNames g1 = mockNames g2"
  shows "mockName g1 n = mockName g2 n"
  unfolding mockName_def assms ..

lemma formattedTypeParams_cong:
  assumes "packageMap g1 = packageMap g2"
  shows "formattedTypeParams lib g1 it po = formattedTypeParams lib g2 it po"
  unfolding formattedTypeParams_def assms ..

lemma GenerateMockMethod_body_cong:
  assumes "packageMap g1 = packageMap g2"
  shows "GenerateMockMethod_body lib g1 mockType m po tp = GenerateMockMethod_body lib g2 mockType m po tp"
  unfolding GenerateMockMethod_body_def getArgNames_cong [OF assms] getArgTypes_cong [OF assms] assms ..

lemma GenerateMockRecorderMethod_body_cong:
  assumes "packageMap g1 = packageMap g2" "mockNames g1 = mockNames g2"
  shows "GenerateMockRecorderMethod_body g1 intf m tp typed = GenerateMockRecorderMethod_body g2 intf m tp typed"
  unfolding GenerateMockRecorderMethod_body_def getArgNames_cong [OF assms(1)] mockName_cong [OF assms(2)] ..

lemma GenerateMockReturnCallMethod_body_cong:
  assumes "packageMap g1 = packageMap g2" "mockNames g1 = mockNames g2"
  shows "GenerateMockReturnCallMethod_body lib g1 intf m po ltp tp =
         GenerateMockReturnCallMethod_body lib g2 intf m po ltp tp"
  unfolding GenerateMockReturnCallMethod_body_def getArgNames_cong [OF assms(1)]
    getArgTypes_cong [OF assms(1)] mockName_cong [OF assms(2)] assms(1) ..

lemma method_actions_cong:
  assumes "packageMap g1 = packageMap g2" "mockNames g1 = mockNames g2"
  shows "method_actions lib g1 mt intf po ltp tp typed m = method_actions lib g2 mt intf po ltp tp typed m"
  unfolding method_actions_def GenerateMockMethod_body_cong [OF assms(1)]
    GenerateMockRecorderMethod_body_cong [OF assms] GenerateMockReturnCallMethod_body_cong [OF assms] ..

lemma makeArgs_ok:
  "length argNames \<le> length argTypes \<Longrightarrow> \<exists>args. makeArgs argNames argTypes = Inr args"
  by (induction argNames argTypes rule: makeArgs.induct) auto

lemma makeArgString_ok:
  "length argNames \<le> length argTypes \<Longrightarrow> \<exists>s. makeArgString argNames argTypes = Inr s"
  using makeArgs_ok [of argNames argTypes] by (auto simp: makeArgString_def)

lemma length_getArgNames:
  "length (getArgNames g m inp) =
     length (if inp then In m else Out m) + (if inp \<and> Variadic m \<noteq> None then 1 else 0)"
  by (auto simp: getArgNames_def Let_def split: option.splits)

lemma length_getArgTypes:
  "length (getArgTypes lib g m po inp) =
     length (if inp then In m else Out m) + (if Variadic m \<noteq> None then 1 else 0)"
  by (auto simp: getArgTypes_def Let_def split: option.splits)

lemma GenerateMockMethod_body_ok:
  "\<exists>acts. GenerateMockMethod_body lib g mockType m po tp = Inr acts"
proof -
  have "length (getArgNames g m True) \<le> length (getArgTypes lib g m po True)"
    by (simp add: length_getArgNames length_getArgTypes)
  from makeArgString_ok [OF this] obtain s where
    "makeArgString (getArgNames g m True) (getArgTypes lib g m po True) = Inr s" by blast
  then show ?thesis
    unfolding GenerateMockMethod_body_def Let_def by simp
qed

lemma GenerateMockReturnCallMethod_body_ok:
  "\<exists>acts. GenerateMockReturnCallMethod_body lib g intf m po ltp tp = Inr acts"
proof -
  have "length (getArgNames g m False) \<le> length (getArgTypes lib g m po False)"
    by (simp add: length_getArgNames length_getArgTypes)
  from makeArgString_ok [OF this] obtain s where
    "makeArgString (getArgNames g m False) (getArgTypes lib g m po False) = Inr s" by blast
  then show ?thesis
    unfolding GenerateMockReturnCallMethod_body_def Let_def by (simp split: prod.splits)
qed

lemma GenerateMockMethod_eq:
  "GenerateMockMethod lib g mockType m po tp =
     Inr (exec g (projr (GenerateMockMethod_body lib g mockType m po tp)))"
  using GenerateMockMethod_body_ok [of lib g mockType m po tp]
  by (auto simp: GenerateMockMethod_def)

lemma GenerateMockReturnCallMethod_eq:
  "GenerateMockReturnCallMethod lib g intf m po ltp tp =
     Inr (exec g (projr (GenerateMockReturnCallMethod_body lib g intf m po ltp tp)))"
  using GenerateMockReturnCallMethod_body_ok [of lib g intf m po ltp tp]
  by (auto simp: GenerateMockReturnCallMethod_def)

lemma exec_Cons_Emit: "exec (g_p g line) acts = exec g (Emit line # acts)"
  by (simp add: exec_def)

lemma GenerateMockMethod_after:
  "GenerateMockMethod lib (g_p (exec g acts) []) mockType m po tp =
     Inr (exec g (acts @ Emit [] # projr (GenerateMockMethod_body lib g mockType m po tp)))"
proof -
  have c: "GenerateMockMethod_body lib (g_p (exec g acts) []) mockType m po tp =
           GenerateMockMethod_body lib g mockType m po tp"
    by (rule GenerateMockMethod_body_cong) simp
  show ?thesis unfolding GenerateMockMethod_eq c by (simp add: exec_def)
qed

lemma GenerateMockRecorderMethod_after:
  "GenerateMockRecorderMethod (g_p (exec g acts) []) intf m tp typed =
     exec g (acts @ Emit [] # GenerateMockRecorderMethod_body g intf m tp typed)"
proof -
  have c: "GenerateMockRecorderMethod_body (g_p (exec g acts) []) intf m tp typed =
           GenerateMockRecorderMethod_body g intf m tp typed"
    by (rule GenerateMockRecorderMethod_body_cong) simp_all
  show ?thesis unfolding GenerateMockRecorderMethod_def c by (simp add: exec_def)
qed

lemma GenerateMockReturnCallMethod_after:
  "GenerateMockReturnCallMethod lib (g_p (exec g acts) []) intf m po ltp tp =
     Inr (exec g (acts @ Emit [] # projr (GenerateMockReturnCallMethod_body lib g intf m po ltp tp)))"
proof -
  have c: "GenerateMockReturnCallMethod_body lib (g_p (exec g acts) []) intf m po ltp tp =
           GenerateMockReturnCallMethod_body lib g intf m po ltp tp"
    by (rule GenerateMockReturnCallMethod_body_cong) simp_all
  show ?thesis unfolding GenerateMockReturnCallMethod_eq c by (simp add: exec_def)
qed

lemma method_step:
  "(case GenerateMockMethod lib (g_p g []) mockType m po tp of
      Inl e \<Rightarrow> Inl e
    | Inr g1 \<Rightarrow>
        (case (if typed then
                 GenerateMockReturnCallMethod lib
                   (g_p (GenerateMockRecorderMethod (g_p g1 []) intf m tp typed) []) intf m po ltp tp
               else Inr (GenerateMockRecorderMethod (g_p g1 []) intf m tp typed)) of
           Inl e \<Rightarrow> Inl e
         | Inr g2 \<Rightarrow> k g2)) =
   k (exec g (method_actions lib g mockType intf po ltp tp typed m))"
proof -
  have s1: "GenerateMockMethod lib (g_p g []) mockType m po tp =
      Inr (exec g ([] @ Emit [] # projr (GenerateMockMethod_body lib g mockType m po tp)))"
    using GenerateMockMethod_after [of lib g "[]"] by simp
  show ?thesis
    unfolding s1 sum.case GenerateMockRecorderMethod_after GenerateMockReturnCallMethod_after
    by (simp add: method_actions_def)
qed

lemma GenerateMockMethods_loop_eq:
  "GenerateMockMethods_loop lib mockType intf po ltp tp typed ms g =
     Inr (exec g (concat (map (method_actions lib g mockType intf po ltp tp typed) ms)))"
proof (induction ms arbitrary: g)
  case Nil
  show ?case by simp
next
  case (Cons m ms)
  let ?g2 = "exec g (method_actions lib g mockType intf po ltp tp typed m)"
  have same: "method_actions lib ?g2 mockType intf po ltp tp typed = method_actions lib g mockType intf po ltp tp typed"
    by (rule ext) (simp add: method_actions_cong [of ?g2 g])
  show ?case
    unfolding GenerateMockMethods_loop.simps method_step Cons.IH same
    by (simp add: exec_append)
qed

lemma GenerateMockRecorderMethod_body_intf:
  assumes "IName i1 = IName i2"
  shows "GenerateMockRecorderMethod_body g i1 m tp typed = GenerateMockRecorderMethod_body g i2 m tp typed"
  unfolding GenerateMockRecorderMethod_body_def assms ..

lemma GenerateMockReturnCallMethod_body_intf:
  assumes "IName i1 = IName i2"
  shows "GenerateMockReturnCallMethod_body lib g i1 m po ltp tp =
         GenerateMockReturnCallMethod_body lib g i2 m po ltp tp"
  unfolding GenerateMockReturnCallMethod_body_def assms ..

lemma method_actions_intf:
  assumes "IName i1 = IName i2"
  shows "method_actions lib g mt i1 po ltp tp typed m = method_actions lib g mt i2 po ltp tp typed m"
  unfolding method_actions_def GenerateMockRecorderMethod_body_intf [OF assms]
    GenerateMockReturnCallMethod_body_intf [OF assms] ..

lemma GenerateMockMethods_eq:
  "GenerateMockMethods lib (exec g acts) mockType intf po ltp tp typed =
     Inr (exec g (acts @ concat (map (method_actions lib g mockType intf po ltp tp typed)
                                  (sort_key MName (Methods intf)))),
          sortMethods intf)"
proof -
  let ?intf = "intf\<lparr>Methods := sort_key MName (Methods intf)\<rparr>"
  have same: "method_actions lib (exec g acts) mockType ?intf po ltp tp typed =
              method_actions lib g mockType intf po ltp tp typed"
  proof (rule ext)
    fix m
    have "method_actions lib (exec g acts) mockType ?intf po ltp tp typed m =
          method_actions lib g mockType ?intf po ltp tp typed m"
      by (rule method_actions_cong) simp_all
    also have "\<dots> = method_actions lib g mockType intf po ltp tp typed m"
      by (rule method_actions_intf) simp
    finally show "method_actions lib (exec g acts) mockType ?intf po ltp tp typed m =
          method_actions lib g mockType intf po ltp tp typed m" .
  qed
  show ?thesis
    unfolding GenerateMockMethods_def Let_def GenerateMockMethods_loop_eq same
    by (simp add: exec_append sortMethods_def)
qed

lemma GenerateMockInterface_eq:
  "GenerateMockInterface cfg lib g intf opp =
     Inr (exec g (interface_actions cfg lib g opp intf), sortMethods intf)"
  unfolding GenerateMockInterface_def Let_def case_prod_beta GenerateMockMethods_eq interface_actions_def ..

lemma interface_actions_cong:
  assumes "packageMap g1 = packageMap g2" "mockNames g1 = mockNames g2"
  shows "interface_actions cfg lib g1 opp intf = interface_actions cfg lib g2 opp intf"
proof -
  have m: "method_actions lib g1 mt i po ltp tp typed = method_actions lib g2 mt i po ltp tp typed"
    for mt i po ltp tp typed
    by (rule ext) (rule method_actions_cong [OF assms])
  show ?thesis
    unfolding interface_actions_def m mockName_cong [OF assms(2)] formattedTypeParams_cong [OF assms(1)] ..
qed

lemma GenerateMockInterfaces_loop_eq:
  "GenerateMockInterfaces_loop cfg lib opp intfs g =
     Inr (exec g (concat (map (interface_actions cfg lib g opp) intfs)), map sortMethods intfs)"
proof (induction intfs arbitrary: g)
  case Nil
  show ?case by simp
next
  case (Cons intf intfs)
  let ?g1 = "exec g (interface_actions cfg lib g opp intf)"
  have same: "interface_actions cfg lib ?g1 opp = interface_actions cfg lib g opp"
    by (rule ext) (rule interface_actions_cong, simp_all)
  show ?case
    unfolding GenerateMockInterfaces_loop.simps GenerateMockInterface_eq Cons.IH
    by (simp add: exec_append same)
qed

lemma Generate_header_cong:
  "Generate_header cfg (g\<lparr>packageMap := pm\<rparr>) = Generate_header cfg g"
  by (simp add: Generate_header_def)

lemma Generate_package_cong:
  assumes "packageMap g1 = packageMap g2"
  shows "Generate_package cfg env lib g1 pkg opn opp = Generate_package cfg env lib g2 pkg opn opp"
  unfolding Generate_package_def assms ..

lemma Generate_eq:
  "Generate cfg env lib g pkg outputPkgName outputPackagePath =
     (case Generate_command cfg env of
        Inl e \<Rightarrow> Inl e
      | Inr cmd \<Rightarrow>
          (case parseDefinedImports cfg of
             Inl e \<Rightarrow> Inl e
           | Inr definedImports \<Rightarrow>
               (let opp = resetOutputPackagePath cfg pkg outputPkgName outputPackagePath;
                    g = g\<lparr>packageMap := resolveAliases env lib definedImports pkg opp\<rparr>
                in Inr (exec g (Generate_actions cfg env lib g pkg outputPkgName opp cmd),
                        pkg\<lparr>Interfaces := map sortMethods (Interfaces pkg)\<rparr>))))"
proof (cases "Generate_command cfg env")
  case (Inl e)
  then show ?thesis by (simp add: Generate_def Let_def)
next
  case cmd: (Inr cmd)
  show ?thesis
  proof (cases "parseDefinedImports cfg")
    case (Inl e)
    then show ?thesis by (simp add: Generate_def Let_def cmd)
  next
    case di: (Inr definedImports)
    define opp where "opp = resetOutputPackagePath cfg pkg outputPkgName outputPackagePath"
    define pm where "pm = resolveAliases env lib definedImports pkg opp"
    define g0 where "g0 = g\<lparr>packageMap := pm\<rparr>"
    let ?g1 = "(exec (exec g (Generate_header cfg g)) cmd)\<lparr>packageMap := pm\<rparr>"
    have g1: "?g1 = exec g0 (Generate_header cfg g0 @ cmd)"
      by (simp add: exec_append exec_update_packageMap g0_def Generate_header_cong)
    have pk: "Generate_package cfg env lib ?g1 pkg outputPkgName opp = Generate_package cfg env lib g0 pkg outputPkgName opp"
      by (rule Generate_package_cong) (simp add: g0_def)
    have ia: "interface_actions cfg lib (exec ?g1 acts) opp =
              interface_actions cfg lib g0 opp" for acts
      by (rule ext) (rule interface_actions_cong, simp_all add: g0_def)
    have "Generate cfg env lib g pkg outputPkgName outputPackagePath =
        Inr (exec (exec ?g1 (Generate_package cfg env lib ?g1 pkg outputPkgName opp))
               (concat (map (interface_actions cfg lib g0 opp) (Interfaces pkg))),
             pkg\<lparr>Interfaces := map sortMethods (Interfaces pkg)\<rparr>)"
      unfolding Generate_def Let_def cmd di sum.case opp_def [symmetric]
        resolveAliases_def [symmetric] case_prod_beta pm_def [symmetric]
        GenerateMockInterfaces_loop_eq ia
      by simp
    also have "\<dots> = Inr (exec g0 (Generate_actions cfg env lib g0 pkg outputPkgName opp cmd),
             pkg\<lparr>Interfaces := map sortMethods (Interfaces pkg)\<rparr>)"
      unfolding pk unfolding g1 by (simp add: exec_append Generate_actions_def)
    finally show ?thesis
      by (simp add: cmd di Let_def opp_def pm_def g0_def)
  qed
qed

subsection \<open>The alias loop\<close>

lemma alias_loop_free:
  "alias_loop base localNames pkgName i \<notin> set localNames \<and>
   \<not> IsKeyword (alias_loop base localNames pkgName i) \<and>
   alias_loop base localNames pkgName i \<noteq> ''any''"
proof (induction base localNames pkgName i rule: alias_loop.induct)
  case (1 base localNames pkgName i)
  show ?case
  proof (cases "pkgName \<in> set localNames \<or> IsKeyword pkgName \<or> pkgName = ''any''")
    case True
    with 1 show ?thesis
      by (simp add: alias_loop.simps [of base localNames pkgName i])
  next
    case False
    then show ?thesis
      by (simp add: alias_loop.simps [of base localNames pkgName i])
  qed
qed

lemma update_values: "snd ` set (AList.update k v ps) \<subseteq> insert v (snd ` set ps)"
  by (induction ps) auto

lemma update_distinct_values:
  "distinct (map snd ps) \<Longrightarrow> v \<notin> snd ` set ps \<Longrightarrow> distinct (map snd (AList.update k v ps))"
proof (induction ps)
  case Nil
  then show ?case by simp
next
  case (Cons p ps)
  have "snd ` set (AList.update k v ps) \<subseteq> insert v (snd ` set ps)"
    by (rule update_values)
  with Cons show ?case by (auto simp: image_iff)
qed

lemma assignAlias_inv:
  assumes "alias_inv st"
  shows "alias_inv (assignAlias lib packagesName definedImports pkgPath outputPackagePath st pth)"
proof -
  obtain pm localNames where st: "st = (pm, localNames)" by (cases st)
  define base where "base = (case packagesName pth of Some b \<Rightarrow> b | None \<Rightarrow> sanitize lib (path_Base pth))"
  define pkgName where
    "pkgName = alias_loop base localNames (case definedImports pth of Some d \<Rightarrow> d | None \<Rightarrow> base) 0"
  have free: "pkgName \<notin> set localNames" "\<not> IsKeyword pkgName" "pkgName \<noteq> ''any''"
    using alias_loop_free [of base localNames _ 0] by (simp_all add: pkgName_def)
  have step: "assignAlias lib packagesName definedImports pkgPath outputPackagePath st pth =
      (if pth = pkgPath \<and> outputPackagePath = pkgPath then (pm, localNames)
       else (AList.update pth pkgName pm, List.insert pkgName localNames))"
    unfolding assignAlias_def st pkgName_def base_def Let_def by simp
  from assms st have inv: "snd ` set pm \<subseteq> set localNames" "distinct (map fst pm)" "distinct (map snd pm)"
    "\<forall>a \<in> snd ` set pm. \<not> IsKeyword a \<and> a \<noteq> ''any''"
    by (simp_all add: alias_inv_def)
  have new: "pkgName \<notin> snd ` set pm" using inv(1) free(1) by auto
  have vals: "snd ` set (AList.update pth pkgName pm) \<subseteq> insert pkgName (snd ` set pm)"
    by (rule update_values)
  have c1: "snd ` set (AList.update pth pkgName pm) \<subseteq> set (List.insert pkgName localNames)"
    using vals inv(1) by (simp add: subset_iff) blast
  have c2: "distinct (map fst (AList.update pth pkgName pm))"
    using inv(2) by (simp add: distinct_update)
  have c3: "distinct (map snd (AList.update pth pkgName pm))"
    using inv(3) new by (rule update_distinct_values)
  have c4: "\<forall>a \<in> snd ` set (AList.update pth pkgName pm). \<not> IsKeyword a \<and> a \<noteq> ''any''"
    using vals inv(4) free(2,3) by blast
  have "alias_inv (AList.update pth pkgName pm, List.insert pkgName localNames)"
    unfolding alias_inv_def using c1 c2 c3 c4 by simp
  with assms st step show ?thesis by simp
qed

lemma foldl_assignAlias_inv:
  "alias_inv st \<Longrightarrow>
   alias_inv (foldl (assignAlias lib packagesName definedImports pkgPath outputPackagePath) st pths)"
  by (induction pths arbitrary: st) (simp_all add: assignAlias_inv)

lemma Generate_packageMap:
  assumes "Generate cfg env lib g pkg outputPkgName outputPackagePath = Inr (g', pkg')"
  shows "\<exists>definedImports. parseDefinedImports cfg = Inr definedImports \<and>
     packageMap g' =
       fst (foldl (assignAlias lib (createPackageMap env (sortedPaths pkg)) definedImports (PkgPath pkg)
                    (resetOutputPackagePath cfg pkg outputPkgName outputPackagePath))
              ([], []) (sortedPaths pkg))"
  using assms
  by (auto simp: Generate_def Let_def split: sum.splits prod.splits
           dest!: GenerateMockInterfaces_loop_packageMap)


subsection \<open>Consequences of the equation for Generate\<close>

lemma ex_no_panic:
  "Generate_command ex_flags ex_env = Inr []" "parseDefinedImports ex_flags = Inr Map.empty"
  by (simp_all add: Generate_command_def parseDefinedImports_def ex_flags_def)

lemma Generate_ex:
  "Generate ex_flags ex_env ex_lib g pkg outputPkgName outputPackagePath =
     Inr (exec (g\<lparr>packageMap := resolveAliases ex_env ex_lib Map.empty pkg
                    (resetOutputPackagePath ex_flags pkg outputPkgName outputPackagePath)\<rparr>)
            (Generate_actions ex_flags ex_env ex_lib
               (g\<lparr>packageMap := resolveAliases ex_env ex_lib Map.empty pkg
                    (resetOutputPackagePath ex_flags pkg outputPkgName outputPackagePath)\<rparr>)
               pkg outputPkgName (resetOutputPackagePath ex_flags pkg outputPkgName outputPackagePath) []),
          pkg\<lparr>Interfaces := map sortMethods (Interfaces pkg)\<rparr>)"
  by (simp add: Generate_eq ex_no_panic Let_def)

lemma Generate_model:
  assumes "Generate cfg env lib g pkg outputPkgName outputPackagePath = Inr (g', pkg')"
  shows "pkg' = pkg\<lparr>Interfaces := map sortMethods (Interfaces pkg)\<rparr>"
  using assms by (auto simp: Generate_eq Let_def split: sum.splits)

subsection \<open>sanitize on runes and on ASCII\<close>

lemma EncodeRune_nonempty: "EncodeRune r \<noteq> []"
  by (simp add: EncodeRune_def)

lemma sanitize_loop_later:
  "t \<noteq> [] \<Longrightarrow>
   sanitize_loop lib t rs =
     t @ concat (map (\<lambda>r. if IsLetter lib r \<or> IsDigit lib r \<or> r = 0x5F then EncodeRune r else ''_'') rs)"
proof (induction rs arbitrary: t)
  case Nil
  show ?case by simp
next
  case (Cons r rs)
  have "t @ EncodeRune r \<noteq> []" "t @ ''_'' \<noteq> []" using Cons.prems by simp_all
  then show ?case using Cons.prems by (simp add: Cons.IH)
qed

lemma enumerate_later:
  "0 < n \<Longrightarrow>
   concat (map (\<lambda>(i, r). if IsLetter lib r \<or> r = 0x5F \<or> (0 < i \<and> IsDigit lib r)
                           then EncodeRune r else ''_'')
             (enumerate n rs)) =
   concat (map (\<lambda>r. if IsLetter lib r \<or> IsDigit lib r \<or> r = 0x5F then EncodeRune r else ''_'') rs)"
  by (induction rs arbitrary: n) auto

lemma sanitize_loop_runes:
  "sanitize_loop lib [] rs =
     concat (map (\<lambda>(i, r). if IsLetter lib r \<or> r = 0x5F \<or> (0 < i \<and> IsDigit lib r)
                             then EncodeRune r else ''_'')
               (enumerate 0 rs))"
proof (cases rs)
  case Nil
  then show ?thesis by simp
next
  case (Cons r rs')
  have later: "concat (map (\<lambda>(i, r). if IsLetter lib r \<or> r = 0x5F \<or> (0 < i \<and> IsDigit lib r)
                             then EncodeRune r else ''_'') (enumerate (Suc 0) rs')) =
      concat (map (\<lambda>r. if IsLetter lib r \<or> IsDigit lib r \<or> r = 0x5F then EncodeRune r else ''_'') rs')"
    by (rule enumerate_later) simp
  have first: "sanitize_loop lib [] (r # rs') =
      (if IsLetter lib r \<or> r = 0x5F then EncodeRune r else ''_'') @
      concat (map (\<lambda>r. if IsLetter lib r \<or> IsDigit lib r \<or> r = 0x5F then EncodeRune r else ''_'') rs')"
    by (simp add: sanitize_loop_later EncodeRune_nonempty)
  show ?thesis
    unfolding Cons first later [symmetric] by simp
qed

lemma DecodeRunes_ascii:
  "list_all (\<lambda>c. (of_char c :: nat) < 0x80) s \<Longrightarrow> DecodeRunes s = map of_char s"
  by (induction s) (simp_all add: DecodeRune.simps)

lemma EncodeRune_ascii: "(of_char c :: nat) < 0x80 \<Longrightarrow> EncodeRune (of_char c) = [c]"
  by (simp add: EncodeRune_def)

lemma underscore_rune: "(of_char c :: nat) = 0x5F \<longleftrightarrow> c = CHR ''_''"
proof
  assume "(of_char c :: nat) = 0x5F"
  then have "(of_char c :: nat) = of_char (CHR ''_'')" by simp
  then show "c = CHR ''_''" by (simp only: of_char_eq_iff)
next
  assume "c = CHR ''_''"
  then show "(of_char c :: nat) = 0x5F" by simp
qed

lemma sanitize_runes_ascii:
  "list_all (\<lambda>c. (of_char c :: nat) < 0x80) s \<Longrightarrow>
   concat (map (\<lambda>(i, r). if IsLetter lib r \<or> r = 0x5F \<or> (0 < i \<and> IsDigit lib r)
                           then EncodeRune r else ''_'')
             (enumerate n (map of_char s))) =
   map (\<lambda>(i, c). if IsLetter lib (of_char c) \<or> c = CHR ''_'' \<or> (0 < i \<and> IsDigit lib (of_char c))
                   then c else CHR ''_'')
     (enumerate n s)"
  by (induction s arbitrary: n) (simp_all add: EncodeRune_ascii underscore_rune)

lemma sanitize_ascii:
  assumes "list_all (\<lambda>c. (of_char c :: nat) < 0x80) s"
  shows "sanitize lib s =
     (let t = map (\<lambda>(i, c). if IsLetter lib (of_char c) \<or> c = CHR ''_'' \<or>
                                (0 < i \<and> IsDigit lib (of_char c))
                             then c else CHR ''_'')
                (enumerate 0 s)
      in if t = ''_'' then ''x'' else t)"
  unfolding sanitize_def DecodeRunes_ascii [OF assms] sanitize_loop_runes
    sanitize_runes_ascii [OF assms] ..


subsection \<open>Quoting a plain string\<close>

lemma Quote_plain:
  assumes "list_all (\<lambda>c. CHR 0x20 \<le> c \<and> c \<le> CHR 0x7E \<and> c \<noteq> dquote \<and> c \<noteq> backslash) s"
  shows "Quote lib s = [dquote] @ s @ [dquote]"
proof -
  have a: "list_all (\<lambda>c. (of_char c :: nat) < 0x80) s"
    using assms by (induction s) (auto simp: less_eq_char_def)
  have b: "concat (map quote_rune s) = s"
    using assms by (induction s) (auto simp: quote_rune_def)
  show ?thesis by (simp add: Quote_def a b)
qed

subsection \<open>The text in the buffer\<close>

lemma butlast_two [simp]: "butlast (xs @ [a, b]) = xs @ [a]"
  by (simp add: butlast_append)

lemma indent_after_only_Emit:
  "Indent \<notin> set acts \<Longrightarrow> Dedent \<notin> set acts \<Longrightarrow> indent_after ind acts = ind"
  by (induction ind acts rule: indent_after.induct) simp_all

lemma indent_after_Emits: "indent_after ind (map (\<lambda>x. Emit (f x)) xs) = ind"
  by (rule indent_after_only_Emit) auto

lemma retNames_loop_acts: "indent_after ind (snd (retNames_loop idRet ia xs)) = ind"
proof (induction xs arbitrary: ia)
  case Nil
  show ?case by simp
next
  case (Cons x xs)
  obtain i t where x: "x = (i, t)" by (cases x)
  show ?case
    unfolding x retNames_loop.simps Let_def case_prod_beta
    by (simp add: Cons.IH)
qed

lemma indent_after_Generate_header: "indent_after ind (Generate_header cfg g) = ind"
  by (simp add: Generate_header_def indent_after_append indent_after_Emits)

lemma indent_after_Generate_command:
  "Generate_command cfg env = Inr cmd \<Longrightarrow> indent_after ind cmd = ind"
  by (auto simp: Generate_command_def Let_def split: if_splits list.splits)

lemma indent_after_concat:
  "(\<And>x. x \<in> set xs \<Longrightarrow> indent_after ind (f x) = ind) \<Longrightarrow> indent_after ind (concat (map f xs)) = ind"
  by (induction xs) (simp_all add: indent_after_append)

lemma indent_after_Generate_package:
  "indent_after ind (Generate_package cfg env lib g pkg opn opp) = ind"
proof -
  have a: "indent_after i (concat (map (\<lambda>(pkgPath, pkgName).
         if pkgPath = opp then [] else [Emit (pkgName @ '' '' @ Quote lib pkgPath)]) xs)) = i" for i xs
    by (rule indent_after_concat) (auto split: prod.splits)
  have b: "indent_after i (map (\<lambda>pkgPath. Emit (''. '' @ Quote lib pkgPath)) xs) = i" for i xs
    by (rule indent_after_Emits)
  show ?thesis
    unfolding Generate_package_def indent_after_append a b by simp
qed

lemma indent_after_GenerateMockInterface_body:
  "indent_after ind (GenerateMockInterface_body mockType iname longTp shortTp) = ind"
  by (simp add: GenerateMockInterface_body_def)

lemma indent_after_GenerateMockMethod_body:
  "indent_after ind (projr (GenerateMockMethod_body lib g mockType m po tp)) = ind"
proof -
  obtain s where s: "makeArgString (getArgNames g m True) (getArgTypes lib g m po True) = Inr s"
    using makeArgString_ok [of "getArgNames g m True" "getArgTypes lib g m po True"]
    by (auto simp: length_getArgNames length_getArgTypes)
  show ?thesis
  proof (cases "Variadic m")
    case None
    show ?thesis
      unfolding GenerateMockMethod_body_def Let_def s case_prod_beta None
      by (simp add: indent_after_append retNames_loop_acts)
  next
    case (Some v)
    show ?thesis
      unfolding GenerateMockMethod_body_def Let_def s case_prod_beta Some
      by (simp add: indent_after_append retNames_loop_acts)
  qed
qed

lemma indent_after_GenerateMockRecorderMethod_body:
  "indent_after ind (GenerateMockRecorderMethod_body g intf m tp typed) = ind"
proof (cases "Variadic m")
  case None
  show ?thesis
    unfolding GenerateMockRecorderMethod_body_def Let_def case_prod_beta None
    by (simp add: indent_after_append)
next
  case (Some v)
  show ?thesis
    unfolding GenerateMockRecorderMethod_body_def Let_def case_prod_beta Some
    by (simp add: indent_after_append)
qed

lemma indent_after_GenerateMockReturnCallMethod_body:
  "indent_after ind (projr (GenerateMockReturnCallMethod_body lib g intf m po ltp tp)) = ind"
proof -
  obtain s where s: "makeArgString (getArgNames g m False) (getArgTypes lib g m po False) = Inr s"
    using makeArgString_ok [of "getArgNames g m False" "getArgTypes lib g m po False"]
    by (auto simp: length_getArgNames length_getArgTypes)
  show ?thesis
    unfolding GenerateMockReturnCallMethod_body_def Let_def s case_prod_beta
    by simp
qed

lemma indent_after_method_actions:
  "indent_after ind (method_actions lib g mt intf po ltp tp typed m) = ind"
  by (simp add: method_actions_def indent_after_append indent_after_GenerateMockMethod_body
        indent_after_GenerateMockRecorderMethod_body indent_after_GenerateMockReturnCallMethod_body)

lemma indent_after_interface_actions:
  "indent_after ind (interface_actions cfg lib g opp intf) = ind"
  by (simp add: interface_actions_def indent_after_append indent_after_GenerateMockInterface_body
        indent_after_concat indent_after_method_actions)

lemma render_concat:
  "(\<And>x. x \<in> set xs \<Longrightarrow> indent_after ind (f x) = ind) \<Longrightarrow>
   render ind (concat (map f xs)) = concat (map (\<lambda>x. render ind (f x)) xs)"
  by (induction xs) (simp_all add: render_append)

lemma Generate_buf:
  assumes "Generate cfg env lib g pkg outputPkgName outputPackagePath = Inr (g', pkg')"
  shows "buf g' = buf g @
           render (indent g) (Generate_header cfg g @ projr (Generate_command cfg env) @
              Generate_package cfg env lib g' pkg outputPkgName
                (resetOutputPackagePath cfg pkg outputPkgName outputPackagePath)) @
           concat (map (\<lambda>intf. render (indent g)
               (interface_actions cfg lib g'
                  (resetOutputPackagePath cfg pkg outputPkgName outputPackagePath) intf))
             (Interfaces pkg))"
    and "indent g' = indent g"
    and "mockNames g' = mockNames g"
    and "packageMap g' = resolveAliases env lib (projr (parseDefinedImports cfg)) pkg
           (resetOutputPackagePath cfg pkg outputPkgName outputPackagePath)"
proof -
  define opp where "opp = resetOutputPackagePath cfg pkg outputPkgName outputPackagePath"
  from assms obtain cmd definedImports where
    cmd: "Generate_command cfg env = Inr cmd" and di: "parseDefinedImports cfg = Inr definedImports"
    by (auto simp: Generate_eq split: sum.splits)
  define g0 where "g0 = g\<lparr>packageMap := resolveAliases env lib definedImports pkg opp\<rparr>"
  from assms have g': "g' = exec g0 (Generate_actions cfg env lib g0 pkg outputPkgName opp cmd)"
    by (simp add: Generate_eq cmd di Let_def opp_def g0_def)
  have pm: "packageMap g' = packageMap g0" and mn: "mockNames g' = mockNames g0"
    by (simp_all add: g')
  have pk: "Generate_package cfg env lib g0 pkg outputPkgName opp =
            Generate_package cfg env lib g' pkg outputPkgName opp"
    by (rule Generate_package_cong) (simp add: pm)
  have ia: "interface_actions cfg lib g0 opp = interface_actions cfg lib g' opp"
    by (rule ext) (rule interface_actions_cong, simp_all add: pm mn)
  let ?pre = "Generate_header cfg g @ cmd @ Generate_package cfg env lib g' pkg outputPkgName opp"
  have bal: "indent_after (indent g) ?pre = indent g"
    by (simp add: indent_after_append indent_after_Generate_header
          indent_after_Generate_command [OF cmd] indent_after_Generate_package)
  have acts: "Generate_actions cfg env lib g0 pkg outputPkgName opp cmd =
      ?pre @ concat (map (interface_actions cfg lib g' opp) (Interfaces pkg))"
    unfolding Generate_actions_def pk ia by (simp add: g0_def Generate_header_cong)
  have ind0: "indent g0 = indent g" and buf0: "buf g0 = buf g" by (simp_all add: g0_def)
  have b: "buf g' = buf g0 @ render (indent g0) (Generate_actions cfg env lib g0 pkg outputPkgName opp cmd)"
    and i: "indent g' = indent_after (indent g0) (Generate_actions cfg env lib g0 pkg outputPkgName opp cmd)"
    by (simp_all add: g' exec_render)
  show "buf g' = buf g @
           render (indent g) (Generate_header cfg g @ projr (Generate_command cfg env) @
              Generate_package cfg env lib g' pkg outputPkgName
                (resetOutputPackagePath cfg pkg outputPkgName outputPackagePath)) @
           concat (map (\<lambda>intf. render (indent g)
               (interface_actions cfg lib g'
                  (resetOutputPackagePath cfg pkg outputPkgName outputPackagePath) intf))
             (Interfaces pkg))"
    unfolding opp_def [symmetric] cmd sum.sel
    unfolding b acts ind0 buf0
    by (simp add: render_append indent_after_append render_concat indent_after_interface_actions
          indent_after_Generate_header indent_after_Generate_command [OF cmd]
          indent_after_Generate_package)
  show "indent g' = indent g"
    unfolding i acts ind0
    by (simp add: indent_after_append indent_after_concat indent_after_interface_actions
          indent_after_Generate_header indent_after_Generate_command [OF cmd]
          indent_after_Generate_package)
  show "mockNames g' = mockNames g" by (simp add: mn g0_def)
  show "packageMap g' = resolveAliases env lib (projr (parseDefinedImports cfg)) pkg
           (resetOutputPackagePath cfg pkg outputPkgName outputPackagePath)"
    by (simp add: pm g0_def di opp_def)
qed

lemma render_interface_actions:
  "render ind (interface_actions cfg lib g opp intf) =
     render ind (GenerateMockInterface_body (mockName g (IName intf)) (IName intf)
       (fst (formattedTypeParams lib g intf opp)) (snd (formattedTypeParams lib g intf opp))) @
     concat (map (\<lambda>m. render ind (method_actions lib g (mockName g (IName intf)) intf opp
                    (fst (formattedTypeParams lib g intf opp))
                    (snd (formattedTypeParams lib g intf opp)) (typed_flag cfg) m))
               (sort_key MName (Methods intf)))"
  by (simp add: interface_actions_def render_append indent_after_GenerateMockInterface_body
        render_concat indent_after_method_actions)

subsection \<open>Evaluating the examples\<close>

lemmas eval_defs = Generate_actions_def Generate_header_def Generate_package_def
  interface_actions_def method_actions_def mockName_def formattedTypeParams_def
  GenerateMockMethod_body_def GenerateMockRecorderMethod_body_def GenerateMockReturnCallMethod_body_def
  makeArgString_def getArgNames_def getArgTypes_def nameExistsAsPackage_def Itoa.simps
  newIdentifierAllocator_def allocateIdentifier_def allocate_loop.simps
  Quote_def quote_rune_def Let_def

lemma ex_two_aliases:
  "resolveAliases ex_env ex_lib Map.empty ex_two [] = [(''go.uber.org/mock/gomock'', ''gomock'')]"
  by (simp add: resolveAliases_def sortedPaths_def ex_two_def ex_env_def createPackageMap_def
        gomockImportPath_def assignAlias_def sanitize_ascii path_Base_def IsLetter_def IsDigit_def
        alias_loop.simps IsKeyword_def go_keywords_def Itoa.simps Let_def
      split del: if_split)

lemma ex_reset: "resetOutputPackagePath ex_flags pkg ''mock_foo'' [] = []"
  by (simp add: resetOutputPackagePath_def)

lemma ex_unsorted_aliases:
  "resolveAliases ex_env ex_lib Map.empty ex_unsorted [] =
     [(''go.uber.org/mock/gomock'', ''gomock''), (''reflect'', ''reflect'')]"
  by (simp add: resolveAliases_def sortedPaths_def ex_unsorted_def ex_env_def createPackageMap_def
        gomockImportPath_def assignAlias_def sanitize_ascii path_Base_def IsLetter_def IsDigit_def
        alias_loop.simps IsKeyword_def go_keywords_def Itoa.simps Let_def
      split del: if_split)


lemma ex_dot_aliases:
  "resolveAliases ex_env ex_lib Map.empty ex_dot ''example.com/foo'' =
     [(''go.uber.org/mock/gomock'', ''gomock'')]"
  by (simp add: resolveAliases_def sortedPaths_def ex_dot_def ex_env_def createPackageMap_def
        gomockImportPath_def assignAlias_def sanitize_ascii path_Base_def IsLetter_def IsDigit_def
        alias_loop.simps IsKeyword_def go_keywords_def Itoa.simps Let_def
      split del: if_split)

lemma ex_keep: "resetOutputPackagePath ex_flags ex_dot ''foo'' ''example.com/foo'' = ''example.com/foo''"
  by (simp add: resetOutputPackagePath_def ex_dot_def)





subsection \<open>The import block in the draft\<close>

lemma render_alias_actions:
  "render (ind @ [tab]) (concat (map (\<lambda>(pkgPath, pkgName).
         if pkgPath = opp then [] else [Emit (pkgName @ '' '' @ Quote lib pkgPath)]) xs) @ rest) =
   alias_lines lib ind (filter (\<lambda>(pkgPath, pkgName). pkgPath \<noteq> opp) xs) @ render (ind @ [tab]) rest"
  by (induction xs) (auto simp: alias_lines_def)

lemma render_dot_actions:
  "render (ind @ [tab]) (map (\<lambda>pkgPath. Emit (''. '' @ Quote lib pkgPath)) xs @ rest) =
   dot_lines lib ind xs @ render (ind @ [tab]) rest"
  by (induction xs) (auto simp: dot_lines_def)

lemma render_Generate_package:
  "render ind (Generate_package cfg env lib g pkg opn opp) =
     render ind ([Emit []] @
        (if writePkgComment cfg then
           [Emit (''// Package '' @ opn @ '' is a generated GoMock package.'')]
         else []) @
        [Emit (''package '' @ opn), Emit [], Emit ''import ('']) @
     alias_lines lib ind (filter (\<lambda>(pkgPath, pkgName). pkgPath \<noteq> opp) (rangeOrder env (packageMap g))) @
     dot_lines lib ind (DotImports pkg) @
     render ind ([Emit '')''] @
        (if writeGenerateDirective cfg then
           [Emit (''//go:generate '' @ Join (Args env) '' '')]
         else []))"
proof -
  have "render ind (Generate_package cfg env lib g pkg opn opp) =
     render ind ([Emit []] @
        (if writePkgComment cfg then
           [Emit (''// Package '' @ opn @ '' is a generated GoMock package.'')]
         else []) @
        [Emit (''package '' @ opn), Emit [], Emit ''import ('']) @
     render (ind @ [tab]) (concat (map (\<lambda>(pkgPath, pkgName).
         if pkgPath = opp then [] else [Emit (pkgName @ '' '' @ Quote lib pkgPath)])
       (rangeOrder env (packageMap g))) @
       (map (\<lambda>pkgPath. Emit (''. '' @ Quote lib pkgPath)) (DotImports pkg) @
        ([Dedent, Emit '')''] @
         (if writeGenerateDirective cfg then
            [Emit (''//go:generate '' @ Join (Args env) '' '')]
          else []))))"
    unfolding Generate_package_def by (simp add: render_append indent_after_append)
  then show ?thesis
    unfolding render_alias_actions render_dot_actions by (simp add: render_append)
qed

lemma Generate_draft_eq:
  assumes "Generate cfg env lib g pkg outputPkgName outputPackagePath = Inr (g', pkg')"
  shows "buf g' =
     Generate_draft cfg env lib (g\<lparr>packageMap := packageMap g'\<rparr>) pkg outputPkgName
       (resetOutputPackagePath cfg pkg outputPkgName outputPackagePath)
       (filter (\<lambda>(pkgPath, pkgName).
            pkgPath \<noteq> resetOutputPackagePath cfg pkg outputPkgName outputPackagePath)
          (rangeOrder env (packageMap g')))"
proof -
  define opp where "opp = resetOutputPackagePath cfg pkg outputPkgName outputPackagePath"
  from assms obtain cmd where cmd: "Generate_command cfg env = Inr cmd"
    by (auto simp: Generate_eq split: sum.splits)
  have ia: "interface_actions cfg lib (g\<lparr>packageMap := packageMap g'\<rparr>) opp =
            interface_actions cfg lib g' opp"
    by (rule ext) (rule interface_actions_cong, simp_all add: Generate_buf(3) [OF assms])
  have hd: "Generate_header cfg (g\<lparr>packageMap := packageMap g'\<rparr>) = Generate_header cfg g"
    by (rule Generate_header_cong)
  show ?thesis
    unfolding Generate_buf(1) [OF assms] opp_def [symmetric] Generate_draft_def ia hd
    by (simp add: render_append indent_after_append indent_after_Generate_header
          indent_after_Generate_command [OF cmd] render_Generate_package cmd)
qed


subsection \<open>The arguments of the type renderer, and the skipped self-import\<close>



















section \<open>Import aliases are unique\<close>

lemma ex_templates_aliases:
  "resolveAliases ex_env ex_lib Map.empty ex_templates [] =
     [(''go.uber.org/mock/gomock'', ''gomock''), (''html/template'', ''template''),
      (''text/template'', ''template0'')]"
  by (simp add: resolveAliases_def sortedPaths_def ex_templates_def ex_env_def createPackageMap_def
        gomockImportPath_def assignAlias_def sanitize_ascii path_Base_def IsLetter_def IsDigit_def
        alias_loop.simps IsKeyword_def go_keywords_def Itoa.simps Let_def
      split del: if_split)

text \<open>
  Claim C2. In the alias map \<^verbatim>\<open>Generate\<close> leaves in \<open>g.packageMap\<close>, two distinct import
  paths never have the same alias, and no alias is a Go keyword or \<open>any\<close>.
\<close>

theorem Generate_alias_unique:
  assumes "Generate cfg env lib g pkg outputPkgName outputPackagePath = Inr (g', pkg')"
  shows "(\<forall>p1 p2 a1 a2. map_of (packageMap g') p1 = Some a1 \<and> map_of (packageMap g') p2 = Some a2 \<and>
             p1 \<noteq> p2 \<longrightarrow> a1 \<noteq> a2) \<and>
         (\<forall>p a. map_of (packageMap g') p = Some a \<longrightarrow> \<not> IsKeyword a \<and> a \<noteq> ''any'')"
proof -
  from Generate_packageMap [OF assms] obtain definedImports where
    pm: "packageMap g' =
       fst (foldl (assignAlias lib (createPackageMap env (sortedPaths pkg)) definedImports (PkgPath pkg)
                    (resetOutputPackagePath cfg pkg outputPkgName outputPackagePath))
              ([], []) (sortedPaths pkg))" by blast
  have "alias_inv ([], [])" by (simp add: alias_inv_def)
  then have inv: "alias_inv (foldl (assignAlias lib (createPackageMap env (sortedPaths pkg)) definedImports
      (PkgPath pkg) (resetOutputPackagePath cfg pkg outputPkgName outputPackagePath)) ([], []) (sortedPaths pkg))"
    by (rule foldl_assignAlias_inv)
  then have d: "distinct (map snd (packageMap g'))" "distinct (map fst (packageMap g'))"
    and k: "\<forall>a \<in> snd ` set (packageMap g'). \<not> IsKeyword a \<and> a \<noteq> ''any''"
    unfolding pm alias_inv_def by simp_all
  have uniq: "a1 \<noteq> a2" if "map_of (packageMap g') p1 = Some a1" "map_of (packageMap g') p2 = Some a2" "p1 \<noteq> p2"
    for p1 p2 a1 a2
  proof
    assume eq: "a1 = a2"
    from that have m1: "(p1, a1) \<in> set (packageMap g')" and m2: "(p2, a1) \<in> set (packageMap g')"
      using eq by (auto dest: map_of_SomeD)
    from d(1) m1 m2 have "p1 = p2"
      by (metis distinct_map inj_on_def snd_conv fst_conv)
    with that(3) show False by simp
  qed
  have kw: "\<not> IsKeyword a \<and> a \<noteq> ''any''" if "map_of (packageMap g') p = Some a" for p a
    using that k by (force dest: map_of_SomeD)
  from uniq kw show ?thesis by blast
qed

theorem Generate_alias_unique_witness:
  "\<not> isl (Generate ex_flags ex_env ex_lib ex_generator ex_templates ''mock_foo'' []) \<and>
   map_of (packageMap (fst (projr (Generate ex_flags ex_env ex_lib ex_generator ex_templates ''mock_foo'' []))))
     ''html/template'' = Some ''template'' \<and>
   map_of (packageMap (fst (projr (Generate ex_flags ex_env ex_lib ex_generator ex_templates ''mock_foo'' []))))
     ''text/template'' = Some ''template0'' \<and>
   ''html/template'' \<noteq> ''text/template'' \<and> ''template'' \<noteq> ''template0'' \<and>
   \<not> IsKeyword ''template0''"
proof -
  let ?G = "Generate ex_flags ex_env ex_lib ex_generator ex_templates ''mock_foo'' []"
  have ok: "?G = Inr (fst (projr ?G), snd (projr ?G))"
    by (simp add: Generate_ex)
  have reset: "resetOutputPackagePath ex_flags ex_templates ''mock_foo'' [] = []"
    by (simp add: resetOutputPackagePath_def)
  have pm: "packageMap (fst (projr ?G)) =
      [(''go.uber.org/mock/gomock'', ''gomock''), (''html/template'', ''template''),
       (''text/template'', ''template0'')]"
    by (simp add: Generate_ex reset ex_templates_aliases)
  have html: "map_of (packageMap (fst (projr ?G))) ''html/template'' = Some ''template''"
    and plain: "map_of (packageMap (fst (projr ?G))) ''text/template'' = Some ''template0''"
    unfolding pm by simp_all
  from Generate_alias_unique [OF ok] html plain
  have "''template'' \<noteq> ''template0''" "\<not> IsKeyword ''template0''"
    by blast+
  with ok html plain show ?thesis by (simp add: Generate_ex)
qed

section \<open>What Generate does to the model\<close>

text \<open>
  Claim C3, as stated, fails: \<^verbatim>\<open>GenerateMockMethods\<close> sorts \<^verbatim>\<open>intf.Methods\<close> in place, so an
  interface handed over with the methods \<open>B, A\<close> holds them as \<open>A, B\<close> afterwards.
\<close>

theorem Generate_sorts_model_counterexample:
  "\<not> isl (Generate ex_flags ex_env ex_lib ex_generator ex_unsorted ''mock_foo'' []) \<and>
   map MName (Methods (hd (Interfaces ex_unsorted))) = [''B'', ''A''] \<and>
   map MName (Methods (hd (Interfaces
     (snd (projr (Generate ex_flags ex_env ex_lib ex_generator ex_unsorted ''mock_foo'' [])))))) = [''A'', ''B'']"
  by (simp add: Generate_ex sortMethods_def ex_unsorted_def)

text \<open>
  Claim C3, amended. \<^verbatim>\<open>Generate\<close> changes the package model in one way only: the method
  slice of every interface is sorted by method name. The sorted slice holds the same
  methods, each with its parameters; everything else in the model is as it was.
\<close>

theorem Generate_sorts_model:
  assumes "Generate cfg env lib g pkg outputPkgName outputPackagePath = Inr (g', pkg')"
  shows "pkg' = pkg\<lparr>Interfaces :=
           map (\<lambda>intf. intf\<lparr>Methods := sort_key MName (Methods intf)\<rparr>) (Interfaces pkg)\<rparr> \<and>
         (\<forall>intf \<in> set (Interfaces pkg).
            mset (sort_key MName (Methods intf)) = mset (Methods intf) \<and>
            sorted (map MName (sort_key MName (Methods intf))))"
proof -
  have "sortMethods = (\<lambda>intf :: 'a Interface. intf\<lparr>Methods := sort_key MName (Methods intf)\<rparr>)"
    by (rule ext) (simp add: sortMethods_def)
  with Generate_model [OF assms] show ?thesis by simp
qed

theorem Generate_sorts_model_witness:
  "\<not> isl (Generate ex_flags ex_env ex_lib ex_generator ex_unsorted ''mock_foo'' []) \<and>
   hd (Interfaces ex_unsorted) \<in> set (Interfaces ex_unsorted) \<and>
   Interfaces (snd (projr (Generate ex_flags ex_env ex_lib ex_generator ex_unsorted ''mock_foo'' []))) =
     [\<lparr>IName = ''I'',
       Methods = [\<lparr>MName = ''A'', In = [], Out = [], Variadic = None\<rparr>,
                  \<lparr>MName = ''B'', In = [], Out = [], Variadic = None\<rparr>],
       TypeParams = []\<rparr>]"
proof -
  let ?G = "Generate ex_flags ex_env ex_lib ex_generator ex_unsorted ''mock_foo'' []"
  have ok: "?G = Inr (fst (projr ?G), snd (projr ?G))"
    by (simp add: Generate_ex)
  from Generate_sorts_model [OF ok] show ?thesis
    by (simp add: Generate_ex ex_unsorted_def)
qed


section \<open>The order of the interfaces and of their methods\<close>

text \<open>
  Claim C4, as stated, fails in its first half: \<^verbatim>\<open>Generate\<close> ranges over
  \<^verbatim>\<open>pkg.Interfaces\<close> as the model gives them and sorts nothing there. For the interfaces
  \<open>Z, A\<close> the buffer holds the mock of \<open>Z\<close> before the mock of \<open>A\<close>.
\<close>

theorem Generate_interface_order_counterexample:
  "\<not> isl (Generate ex_flags ex_env ex_lib ex_generator ex_two ''mock_foo'' []) \<and>
   map IName (Interfaces ex_two) = [''Z'', ''A''] \<and> ''A'' < ''Z'' \<and>
   buf (fst (projr (Generate ex_flags ex_env ex_lib ex_generator ex_two ''mock_foo'' []))) =
     render []
       [Emit ''// Code generated by MockGen. DO NOT EDIT.'',
        Emit [],
        Emit ''package mock_foo'',
        Emit [],
        Emit ''import ('',
        Indent,
        Emit (''gomock '' @ [dquote] @ ''go.uber.org/mock/gomock'' @ [dquote]),
        Dedent,
        Emit '')'',
        Emit [],
        Emit ''// MockZ is a mock of Z interface.'',
        Emit ''type MockZ struct {'',
        Indent,
        Emit ''ctrl     *gomock.Controller'',
        Emit ''recorder *MockZMockRecorder'',
        Emit ''isgomock struct{}'',
        Dedent,
        Emit ''}'',
        Emit [],
        Emit ''// MockZMockRecorder is the mock recorder for MockZ.'',
        Emit ''type MockZMockRecorder struct {'',
        Indent,
        Emit ''mock *MockZ'',
        Dedent,
        Emit ''}'',
        Emit [],
        Emit ''// NewMockZ creates a new mock instance.'',
        Emit ''func NewMockZ(ctrl *gomock.Controller) *MockZ {'',
        Indent,
        Emit ''mock := &MockZ{ctrl: ctrl}'',
        Emit ''mock.recorder = &MockZMockRecorder{mock}'',
        Emit ''return mock'',
        Dedent,
        Emit ''}'',
        Emit [],
        Emit ''// EXPECT returns an object that allows the caller to indicate expected use.'',
        Emit ''func (m *MockZ) EXPECT() *MockZMockRecorder {'',
        Indent,
        Emit ''return m.recorder'',
        Dedent,
        Emit ''}'',
        Emit [],
        Emit ''// MockA is a mock of A interface.'',
        Emit ''type MockA struct {'',
        Indent,
        Emit ''ctrl     *gomock.Controller'',
        Emit ''recorder *MockAMockRecorder'',
        Emit ''isgomock struct{}'',
        Dedent,
        Emit ''}'',
        Emit [],
        Emit ''// MockAMockRecorder is the mock recorder for MockA.'',
        Emit ''type MockAMockRecorder struct {'',
        Indent,
        Emit ''mock *MockA'',
        Dedent,
        Emit ''}'',
        Emit [],
        Emit ''// NewMockA creates a new mock instance.'',
        Emit ''func NewMockA(ctrl *gomock.Controller) *MockA {'',
        Indent,
        Emit ''mock := &MockA{ctrl: ctrl}'',
        Emit ''mock.recorder = &MockAMockRecorder{mock}'',
        Emit ''return mock'',
        Dedent,
        Emit ''}'',
        Emit [],
        Emit ''// EXPECT returns an object that allows the caller to indicate expected use.'',
        Emit ''func (m *MockA) EXPECT() *MockAMockRecorder {'',
        Indent,
        Emit ''return m.recorder'',
        Dedent,
        Emit ''}'']"
proof -
  have acts: "Generate_actions ex_flags ex_env ex_lib
        (ex_generator\<lparr>packageMap := [(''go.uber.org/mock/gomock'', ''gomock'')]\<rparr>) ex_two ''mock_foo'' [] [] =
       [Emit ''// Code generated by MockGen. DO NOT EDIT.'',
        Emit [],
        Emit ''package mock_foo'',
        Emit [],
        Emit ''import ('',
        Indent,
        Emit (''gomock '' @ [dquote] @ ''go.uber.org/mock/gomock'' @ [dquote]),
        Dedent,
        Emit '')''] @
       GenerateMockInterface_body ''MockZ'' ''Z'' [] [] @ GenerateMockInterface_body ''MockA'' ''A'' [] []"
    by (simp add: Generate_actions_def Generate_header_def Generate_package_def
          interface_actions_def mockName_def formattedTypeParams_def
          ex_generator_def ex_flags_def ex_env_def ex_two_def Quote_def quote_rune_def)
  have "buf (fst (projr (Generate ex_flags ex_env ex_lib ex_generator ex_two ''mock_foo'' []))) =
      render [] (Generate_actions ex_flags ex_env ex_lib
        (ex_generator\<lparr>packageMap := [(''go.uber.org/mock/gomock'', ''gomock'')]\<rparr>) ex_two ''mock_foo'' [] [])"
    by (simp add: Generate_ex ex_reset ex_two_aliases exec_render ex_generator_def)
  then show ?thesis
    unfolding acts
    by (simp add: Generate_ex GenerateMockInterface_body_def ex_two_def)
qed

text \<open>
  Claim C4, amended. After the header and the import block the buffer holds one block per
  interface, in the order of the model's interface sequence; the block of an interface is
  the text of \<^verbatim>\<open>GenerateMockInterface\<close> followed by the code of its methods in ascending
  order of their names, every method once.
\<close>

theorem Generate_visits_model_order:
  assumes "Generate cfg env lib g pkg outputPkgName outputPackagePath = Inr (g', pkg')"
  shows "buf g' = buf g @
           render (indent g) (Generate_header cfg g @ projr (Generate_command cfg env) @
              Generate_package cfg env lib g' pkg outputPkgName
                (resetOutputPackagePath cfg pkg outputPkgName outputPackagePath)) @
           concat (map (\<lambda>intf.
               render (indent g) (GenerateMockInterface_body (mockName g' (IName intf)) (IName intf)
                 (fst (formattedTypeParams lib g' intf
                    (resetOutputPackagePath cfg pkg outputPkgName outputPackagePath)))
                 (snd (formattedTypeParams lib g' intf
                    (resetOutputPackagePath cfg pkg outputPkgName outputPackagePath)))) @
               concat (map (\<lambda>m. render (indent g)
                   (method_actions lib g' (mockName g' (IName intf)) intf
                      (resetOutputPackagePath cfg pkg outputPkgName outputPackagePath)
                      (fst (formattedTypeParams lib g' intf
                         (resetOutputPackagePath cfg pkg outputPkgName outputPackagePath)))
                      (snd (formattedTypeParams lib g' intf
                         (resetOutputPackagePath cfg pkg outputPkgName outputPackagePath)))
                      (typed_flag cfg) m))
                 (sort_key MName (Methods intf))))
             (Interfaces pkg)) \<and>
         (\<forall>intf \<in> set (Interfaces pkg).
            sorted (map MName (sort_key MName (Methods intf))) \<and>
            mset (sort_key MName (Methods intf)) = mset (Methods intf))"
  unfolding Generate_buf(1) [OF assms] render_interface_actions
  by simp


theorem Generate_visits_model_order_witness:
  "\<not> isl (Generate ex_flags ex_env ex_lib ex_generator ex_unsorted ''mock_foo'' []) \<and>
   map MName (Methods (hd (Interfaces ex_unsorted))) = [''B'', ''A''] \<and>
   sorted (map MName (sort_key MName (Methods (hd (Interfaces ex_unsorted))))) \<and>
   buf (fst (projr (Generate ex_flags ex_env ex_lib ex_generator ex_unsorted ''mock_foo'' []))) =
     render []
       [Emit ''// Code generated by MockGen. DO NOT EDIT.'',
        Emit [],
        Emit ''package mock_foo'',
        Emit [],
        Emit ''import ('',
        Indent,
        Emit (''gomock '' @ [dquote] @ ''go.uber.org/mock/gomock'' @ [dquote]),
        Emit (''reflect '' @ [dquote] @ ''reflect'' @ [dquote]),
        Dedent,
        Emit '')'',
        Emit [],
        Emit ''// MockI is a mock of I interface.'',
        Emit ''type MockI struct {'',
        Indent,
        Emit ''ctrl     *gomock.Controller'',
        Emit ''recorder *MockIMockRecorder'',
        Emit ''isgomock struct{}'',
        Dedent,
        Emit ''}'',
        Emit [],
        Emit ''// MockIMockRecorder is the mock recorder for MockI.'',
        Emit ''type MockIMockRecorder struct {'',
        Indent,
        Emit ''mock *MockI'',
        Dedent,
        Emit ''}'',
        Emit [],
        Emit ''// NewMockI creates a new mock instance.'',
        Emit ''func NewMockI(ctrl *gomock.Controller) *MockI {'',
        Indent,
        Emit ''mock := &MockI{ctrl: ctrl}'',
        Emit ''mock.recorder = &MockIMockRecorder{mock}'',
        Emit ''return mock'',
        Dedent,
        Emit ''}'',
        Emit [],
        Emit ''// EXPECT returns an object that allows the caller to indicate expected use.'',
        Emit ''func (m *MockI) EXPECT() *MockIMockRecorder {'',
        Indent,
        Emit ''return m.recorder'',
        Dedent,
        Emit ''}'',
        Emit [],
        Emit ''// A mocks base method.'',
        Emit ''func (m *MockI) A() {'',
        Indent,
        Emit ''m.ctrl.T.Helper()'',
        Emit (''m.ctrl.Call(m, '' @ [dquote] @ ''A'' @ [dquote] @ '')''),
        Dedent,
        Emit ''}'',
        Emit [],
        Emit ''// A indicates an expected call of A.'',
        Emit ''func (mr *MockIMockRecorder) A() *gomock.Call {'',
        Indent,
        Emit ''mr.mock.ctrl.T.Helper()'',
        Emit (''return mr.mock.ctrl.RecordCallWithMethodType(mr.mock, '' @ [dquote] @ ''A'' @ [dquote] @
              '', reflect.TypeOf((*MockI)(nil).A))''),
        Dedent,
        Emit ''}'',
        Emit [],
        Emit ''// B mocks base method.'',
        Emit ''func (m *MockI) B() {'',
        Indent,
        Emit ''m.ctrl.T.Helper()'',
        Emit (''m.ctrl.Call(m, '' @ [dquote] @ ''B'' @ [dquote] @ '')''),
        Dedent,
        Emit ''}'',
        Emit [],
        Emit ''// B indicates an expected call of B.'',
        Emit ''func (mr *MockIMockRecorder) B() *gomock.Call {'',
        Indent,
        Emit ''mr.mock.ctrl.T.Helper()'',
        Emit (''return mr.mock.ctrl.RecordCallWithMethodType(mr.mock, '' @ [dquote] @ ''B'' @ [dquote] @
              '', reflect.TypeOf((*MockI)(nil).B))''),
        Dedent,
        Emit ''}'']"
proof -
  let ?G = "Generate ex_flags ex_env ex_lib ex_generator ex_unsorted ''mock_foo'' []"
  have ok: "?G = Inr (fst (projr ?G), snd (projr ?G))"
    by (simp add: Generate_ex)
  have first: "hd (Interfaces ex_unsorted) \<in> set (Interfaces ex_unsorted)"
    by (simp add: ex_unsorted_def)
  from Generate_visits_model_order [OF ok] first
  have sorted: "sorted (map MName (sort_key MName (Methods (hd (Interfaces ex_unsorted)))))"
    by blast
  have acts: "Generate_actions ex_flags ex_env ex_lib
        (ex_generator\<lparr>packageMap := [(''go.uber.org/mock/gomock'', ''gomock''), (''reflect'', ''reflect'')]\<rparr>)
        ex_unsorted ''mock_foo'' [] [] =
       [Emit ''// Code generated by MockGen. DO NOT EDIT.'',
        Emit [],
        Emit ''package mock_foo'',
        Emit [],
        Emit ''import ('',
        Indent,
        Emit (''gomock '' @ [dquote] @ ''go.uber.org/mock/gomock'' @ [dquote]),
        Emit (''reflect '' @ [dquote] @ ''reflect'' @ [dquote]),
        Dedent,
        Emit '')''] @
       GenerateMockInterface_body ''MockI'' ''I'' [] [] @
       [Emit [],
        Emit ''// A mocks base method.'',
        Emit ''func (m *MockI) A() {'',
        Indent,
        Emit ''m.ctrl.T.Helper()'',
        Emit (''m.ctrl.Call(m, '' @ [dquote] @ ''A'' @ [dquote] @ '')''),
        Dedent,
        Emit ''}'',
        Emit [],
        Emit ''// A indicates an expected call of A.'',
        Emit ''func (mr *MockIMockRecorder) A() *gomock.Call {'',
        Indent,
        Emit ''mr.mock.ctrl.T.Helper()'',
        Emit (''return mr.mock.ctrl.RecordCallWithMethodType(mr.mock, '' @ [dquote] @ ''A'' @ [dquote] @
              '', reflect.TypeOf((*MockI)(nil).A))''),
        Dedent,
        Emit ''}'',
        Emit [],
        Emit ''// B mocks base method.'',
        Emit ''func (m *MockI) B() {'',
        Indent,
        Emit ''m.ctrl.T.Helper()'',
        Emit (''m.ctrl.Call(m, '' @ [dquote] @ ''B'' @ [dquote] @ '')''),
        Dedent,
        Emit ''}'',
        Emit [],
        Emit ''// B indicates an expected call of B.'',
        Emit ''func (mr *MockIMockRecorder) B() *gomock.Call {'',
        Indent,
        Emit ''mr.mock.ctrl.T.Helper()'',
        Emit (''return mr.mock.ctrl.RecordCallWithMethodType(mr.mock, '' @ [dquote] @ ''B'' @ [dquote] @
              '', reflect.TypeOf((*MockI)(nil).B))''),
        Dedent,
        Emit ''}'']"
    by (simp add: eval_defs ex_generator_def ex_flags_def ex_env_def ex_unsorted_def ex_lib_def
        split del: if_split)
  have "buf (fst (projr ?G)) =
      render [] (Generate_actions ex_flags ex_env ex_lib
        (ex_generator\<lparr>packageMap := [(''go.uber.org/mock/gomock'', ''gomock''), (''reflect'', ''reflect'')]\<rparr>)
        ex_unsorted ''mock_foo'' [] [])"
    by (simp add: Generate_ex ex_reset ex_unsorted_aliases exec_render ex_generator_def)
  then have emitted: "buf (fst (projr ?G)) = render [] (
       [Emit ''// Code generated by MockGen. DO NOT EDIT.'',
        Emit [],
        Emit ''package mock_foo'',
        Emit [],
        Emit ''import ('',
        Indent,
        Emit (''gomock '' @ [dquote] @ ''go.uber.org/mock/gomock'' @ [dquote]),
        Emit (''reflect '' @ [dquote] @ ''reflect'' @ [dquote]),
        Dedent,
        Emit '')''] @
       GenerateMockInterface_body ''MockI'' ''I'' [] [] @
       [Emit [],
        Emit ''// A mocks base method.'',
        Emit ''func (m *MockI) A() {'',
        Indent,
        Emit ''m.ctrl.T.Helper()'',
        Emit (''m.ctrl.Call(m, '' @ [dquote] @ ''A'' @ [dquote] @ '')''),
        Dedent,
        Emit ''}'',
        Emit [],
        Emit ''// A indicates an expected call of A.'',
        Emit ''func (mr *MockIMockRecorder) A() *gomock.Call {'',
        Indent,
        Emit ''mr.mock.ctrl.T.Helper()'',
        Emit (''return mr.mock.ctrl.RecordCallWithMethodType(mr.mock, '' @ [dquote] @ ''A'' @ [dquote] @
              '', reflect.TypeOf((*MockI)(nil).A))''),
        Dedent,
        Emit ''}'',
        Emit [],
        Emit ''// B mocks base method.'',
        Emit ''func (m *MockI) B() {'',
        Indent,
        Emit ''m.ctrl.T.Helper()'',
        Emit (''m.ctrl.Call(m, '' @ [dquote] @ ''B'' @ [dquote] @ '')''),
        Dedent,
        Emit ''}'',
        Emit [],
        Emit ''// B indicates an expected call of B.'',
        Emit ''func (mr *MockIMockRecorder) B() *gomock.Call {'',
        Indent,
        Emit ''mr.mock.ctrl.T.Helper()'',
        Emit (''return mr.mock.ctrl.RecordCallWithMethodType(mr.mock, '' @ [dquote] @ ''B'' @ [dquote] @
              '', reflect.TypeOf((*MockI)(nil).B))''),
        Dedent,
        Emit ''}''])"
    unfolding acts .
  have names: "map MName (Methods (hd (Interfaces ex_unsorted))) = [''B'', ''A'']"
    by (simp add: ex_unsorted_def)
  from ok have run: "\<not> isl ?G" by (metis sum.disc(2))
  from run names sorted emitted show ?thesis
    by (simp add: GenerateMockInterface_body_def)
qed


section \<open>The name of a variadic parameter\<close>

text \<open>
  Claim C6 on the code: \<^verbatim>\<open>getArgNames\<close> renames an input parameter called \<open>_\<close> to
  \<open>argN\<close>, but for the variadic parameter it tests only the empty name and the package
  aliases, so a variadic parameter called \<open>_\<close> keeps that name.
\<close>

theorem getArgNames_variadic_placeholder:
  "getArgNames (g\<lparr>packageMap := []\<rparr>) \<lparr>MName = ''F'', In = [\<lparr>PName = ''_'', PType = t\<rparr>], Out = [],
       Variadic = Some \<lparr>PName = ''_'', PType = t\<rparr>\<rparr> True = [''arg0'', ''_'']"
  by (simp add: getArgNames_def Itoa.simps nameExistsAsPackage_def)

section \<open>The identifier allocator is correct\<close>

lemma allocate_loop_spec:
  "allocate_loop want al ident i \<notin> set al \<and>
   (ident \<notin> set al \<longrightarrow> allocate_loop want al ident i = ident) \<and>
   (ident \<in> set al \<longrightarrow>
      (\<exists>N\<ge>i. allocate_loop want al ident i = want @ ''_'' @ Itoa N \<and>
         (\<forall>M. i \<le> M \<and> M < N \<longrightarrow> want @ ''_'' @ Itoa M \<in> set al)))"
proof (induction want al ident i rule: allocate_loop.induct)
  case (1 want al ident i)
  show ?case
  proof (cases "ident \<in> set al")
    case False
    then show ?thesis by (simp add: allocate_loop.simps [of want al ident i])
  next
    case True
    let ?next = "want @ ''_'' @ Itoa i"
    have unfold: "allocate_loop want al ident i = allocate_loop want al ?next (Suc i)"
      using True by (simp add: allocate_loop.simps [of want al ident i])
    from 1 True have IH:
      "allocate_loop want al ?next (Suc i) \<notin> set al"
      "?next \<notin> set al \<Longrightarrow> allocate_loop want al ?next (Suc i) = ?next"
      "?next \<in> set al \<Longrightarrow> \<exists>N\<ge>Suc i. allocate_loop want al ?next (Suc i) = want @ ''_'' @ Itoa N \<and>
         (\<forall>M. Suc i \<le> M \<and> M < N \<longrightarrow> want @ ''_'' @ Itoa M \<in> set al)"
      by simp_all
    show ?thesis
    proof (cases "?next \<in> set al")
      case False
      with IH(2) have "allocate_loop want al ident i = want @ ''_'' @ Itoa i"
        using unfold by simp
      with True False IH(1) unfold show ?thesis by auto
    next
      case next_taken: True
      from IH(3) [OF this] obtain N where N: "Suc i \<le> N"
        "allocate_loop want al ?next (Suc i) = want @ ''_'' @ Itoa N"
        "\<forall>M. Suc i \<le> M \<and> M < N \<longrightarrow> want @ ''_'' @ Itoa M \<in> set al" by blast
      have "\<forall>M. i \<le> M \<and> M < N \<longrightarrow> want @ ''_'' @ Itoa M \<in> set al"
      proof (intro allI impI)
        fix M assume "i \<le> M \<and> M < N"
        then consider "M = i" | "Suc i \<le> M \<and> M < N" by force
        then show "want @ ''_'' @ Itoa M \<in> set al"
          using next_taken N(3) by cases auto
      qed
      with N(1,2) True IH(1) unfold show ?thesis
        by (metis Suc_leD)
    qed
  qed
qed

text \<open>
  Claim C7. \<^verbatim>\<open>allocateIdentifier(want)\<close> returns \<open>want\<close> when it is not taken, and
  otherwise \<open>want_N\<close> for the least \<open>N \<ge> 2\<close> whose \<open>want_N\<close> is not taken; the returned
  name is free, and it is added to the taken set. The function is total (its loop is
  defined with a termination proof) and has no error result.
\<close>

theorem allocateIdentifier_spec:
  "fst (allocateIdentifier al want) \<notin> set al \<and>
   set (snd (allocateIdentifier al want)) = insert (fst (allocateIdentifier al want)) (set al) \<and>
   (want \<notin> set al \<longrightarrow> fst (allocateIdentifier al want) = want) \<and>
   (want \<in> set al \<longrightarrow>
      (\<exists>N\<ge>2. fst (allocateIdentifier al want) = want @ ''_'' @ Itoa N \<and>
         want @ ''_'' @ Itoa N \<notin> set al \<and>
         (\<forall>M. 2 \<le> M \<and> M < N \<longrightarrow> want @ ''_'' @ Itoa M \<in> set al)))"
  using allocate_loop_spec [of want al want 2]
  by (auto simp: allocateIdentifier_def Let_def)

theorem allocateIdentifier_spec_witness:
  "''m'' \<in> set [''m_2'', ''m''] \<and>
   fst (allocateIdentifier [''m_2'', ''m''] ''m'') = ''m_3'' \<and>
   ''m_3'' \<notin> set [''m_2'', ''m''] \<and>
   snd (allocateIdentifier [''m_2'', ''m''] ''m'') = [''m_3'', ''m_2'', ''m'']"
proof -
  have run: "allocateIdentifier [''m_2'', ''m''] ''m'' = (''m_3'', [''m_3'', ''m_2'', ''m''])"
    by (simp add: allocateIdentifier_def allocate_loop.simps Itoa.simps Let_def)
  from allocateIdentifier_spec [of "[''m_2'', ''m'']" "''m''"] show ?thesis
    unfolding run by simp
qed

section \<open>sanitize replaces, it does not strip\<close>

text \<open>
  Claim C8, as stated, fails: \<^verbatim>\<open>sanitize\<close> does not strip an invalid character, it writes
  an underscore in its place, and only the one-character result \<open>_\<close> becomes the
  placeholder \<open>x\<close>. So \<open>a-b\<close> gives \<open>a_b\<close> (not \<open>ab\<close>), and \<open>--\<close>, made of invalid
  characters only, gives \<open>__\<close> (not a single letter).
\<close>

theorem sanitize_counterexample:
  "sanitize ex_lib ''a-b'' = ''a_b'' \<and> sanitize ex_lib ''--'' = ''__'' \<and> sanitize ex_lib ''_'' = ''x''"
  by (simp add: sanitize_ascii IsLetter_def IsDigit_def)

text \<open>
  Claim C8, amended. \<^verbatim>\<open>sanitize\<close> goes through the runes of its argument: it keeps a
  letter and an underscore, keeps a digit unless it is the first rune, and writes one
  underscore for every other rune; a result that is exactly \<open>_\<close> becomes \<open>x\<close>. On an
  ASCII argument the result is therefore as long as the argument, consists of letters,
  digits and underscores, and starts with a letter or an underscore. When neither the
  oracle nor the \<^verbatim>\<open>-imports\<close> flag names an import path, and the path is not the source
  package being written into itself, its alias is searched from \<open>sanitize (path.Base pth)\<close>.
\<close>

theorem sanitize_replaces:
  "sanitize lib s =
     (let t = concat (map (\<lambda>(i, r). if IsLetter lib r \<or> r = 0x5F \<or> (0 < i \<and> IsDigit lib r)
                                     then EncodeRune r else ''_'')
                       (enumerate 0 (DecodeRunes s)))
      in if t = ''_'' then ''x'' else t) \<and>
   (list_all (\<lambda>c. (of_char c :: nat) < 0x80) s \<longrightarrow>
      length (sanitize lib s) = length s \<and>
      (\<forall>c \<in> set (sanitize lib s). IsLetter lib (of_char c) \<or> IsDigit lib (of_char c) \<or> c = CHR ''_'') \<and>
      (s \<noteq> [] \<longrightarrow> IsLetter lib (of_char (hd (sanitize lib s))) \<or> hd (sanitize lib s) = CHR ''_'')) \<and>
   (packagesName pth = None \<and> definedImports pth = None \<and>
    \<not> (pth = pkgPath \<and> outputPackagePath = pkgPath) \<longrightarrow>
      fst (assignAlias lib packagesName definedImports pkgPath outputPackagePath ([], localNames) pth) =
        [(pth, alias_loop (sanitize lib (path_Base pth)) localNames (sanitize lib (path_Base pth)) 0)])"
proof -
  have runes: "sanitize lib s =
     (let t = concat (map (\<lambda>(i, r). if IsLetter lib r \<or> r = 0x5F \<or> (0 < i \<and> IsDigit lib r)
                                     then EncodeRune r else ''_'')
                       (enumerate 0 (DecodeRunes s)))
      in if t = ''_'' then ''x'' else t)"
    unfolding sanitize_def sanitize_loop_runes ..
  have fallback: "packagesName pth = None \<and> definedImports pth = None \<and>
      \<not> (pth = pkgPath \<and> outputPackagePath = pkgPath) \<longrightarrow>
      fst (assignAlias lib packagesName definedImports pkgPath outputPackagePath ([], localNames) pth) =
        [(pth, alias_loop (sanitize lib (path_Base pth)) localNames (sanitize lib (path_Base pth)) 0)]"
    by (auto simp: assignAlias_def Let_def)
  have ascii: "length (sanitize lib s) = length s \<and>
      (\<forall>c \<in> set (sanitize lib s). IsLetter lib (of_char c) \<or> IsDigit lib (of_char c) \<or> c = CHR ''_'') \<and>
      (s \<noteq> [] \<longrightarrow> IsLetter lib (of_char (hd (sanitize lib s))) \<or> hd (sanitize lib s) = CHR ''_'')"
    if a: "list_all (\<lambda>c. (of_char c :: nat) < 0x80) s"
  proof -
    let ?f = "\<lambda>(i::nat, c). if IsLetter lib (of_char c) \<or> c = CHR ''_'' \<or>
                                (0 < i \<and> IsDigit lib (of_char c)) then c else CHR ''_''"
    let ?t = "map ?f (enumerate 0 s)"
    have san: "sanitize lib s = (if ?t = ''_'' then ''x'' else ?t)"
      using sanitize_ascii [OF a, of lib] by (simp add: Let_def)
    have len: "length ?t = length s" by simp
    have chars: "\<forall>c \<in> set ?t. IsLetter lib (of_char c) \<or> IsDigit lib (of_char c) \<or> c = CHR ''_''"
      by (auto simp: in_set_enumerate_eq)
    have first: "s \<noteq> [] \<longrightarrow> IsLetter lib (of_char (hd ?t)) \<or> hd ?t = CHR ''_''"
      by (cases s) (auto simp: enumerate_simps)
    have x: "IsLetter lib (of_char (CHR ''x''))" by (simp add: IsLetter_def)
    show ?thesis
    proof (cases "?t = ''_''")
      case True
      then have "length s = 1" using len by (metis length_Cons list.size(3) One_nat_def)
      with True x show ?thesis
        unfolding san by (cases s) auto
    next
      case False
      with len chars first show ?thesis
        unfolding san by simp
    qed
  qed
  from runes fallback ascii show ?thesis by blast
qed

theorem sanitize_replaces_witness:
  "list_all (\<lambda>c. (of_char c :: nat) < 0x80) ''1a-b'' \<and>
   sanitize ex_lib ''1a-b'' = ''_a_b'' \<and> ''1a-b'' \<noteq> [] \<and> hd (sanitize ex_lib ''1a-b'') = CHR ''_'' \<and>
   length (sanitize ex_lib ''1a-b'') = length ''1a-b'' \<and>
   (Map.empty :: string \<rightharpoonup> string) ''x/1a-b'' = None \<and>
   \<not> (''x/1a-b'' = ''p'' \<and> [] = ''p'') \<and>
   fst (assignAlias ex_lib Map.empty Map.empty ''p'' [] ([], []) ''x/1a-b'') = [(''x/1a-b'', ''_a_b'')]"
proof -
  have san: "sanitize ex_lib ''1a-b'' = ''_a_b''"
    by (simp add: sanitize_ascii IsLetter_def IsDigit_def)
  have base: "path_Base ''x/1a-b'' = ''1a-b''"
    by (simp add: path_Base_def)
  have loop: "alias_loop ''_a_b'' [] ''_a_b'' 0 = ''_a_b''"
    by (simp add: alias_loop.simps IsKeyword_def go_keywords_def)
  have ascii: "list_all (\<lambda>c. (of_char c :: nat) < 0x80) ''1a-b''" by simp
  note spec = sanitize_replaces [of ex_lib "''1a-b''" Map.empty "''x/1a-b''" Map.empty "''p''" "[]" "[]"]
  from spec ascii have len: "length (sanitize ex_lib ''1a-b'') = length ''1a-b''"
    by blast
  from spec have fb: "fst (assignAlias ex_lib Map.empty Map.empty ''p'' [] ([], []) ''x/1a-b'') =
      [(''x/1a-b'', alias_loop (sanitize ex_lib (path_Base ''x/1a-b'')) []
                      (sanitize ex_lib (path_Base ''x/1a-b'')) 0)]"
    by simp
  from ascii len fb show ?thesis
    unfolding base san loop by simp
qed

section \<open>The import of the source package\<close>





section \<open>Dot imports\<close>

text \<open>
  Claim C10. The text that \<^verbatim>\<open>Generate\<close> appends to the buffer is: the header, the package
  clause and \<^verbatim>\<open>import (\<close>; the aliased lines; then one line \<^verbatim>\<open>. "path"\<close> for every
  element of \<^verbatim>\<open>pkg.DotImports\<close>, in the order of that slice, repeated elements repeated,
  whatever the alias map and the output package path are; then \<^verbatim>\<open>)\<close> and the mocks.
  The path is written by \<^verbatim>\<open>%q\<close>, which puts a string of printable ASCII characters
  without double quote and backslash between double quotes as it is.
\<close>

theorem Generate_dot_imports:
  assumes "Generate cfg env lib g pkg outputPkgName outputPackagePath = Inr (g', pkg')"
  shows "buf g' =
     (buf g @
      render (indent g)
        (Generate_header cfg g @ projr (Generate_command cfg env) @
         [Emit []] @
         (if writePkgComment cfg then
            [Emit (''// Package '' @ outputPkgName @ '' is a generated GoMock package.'')]
          else []) @
         [Emit (''package '' @ outputPkgName),
          Emit [],
          Emit ''import ('']) @
      alias_lines lib (indent g)
        (filter (\<lambda>(pkgPath, pkgName).
             pkgPath \<noteq> resetOutputPackagePath cfg pkg outputPkgName outputPackagePath)
           (rangeOrder env (packageMap g')))) @
     concat (map (\<lambda>pkgPath. indent g @ [tab] @ ''. '' @ Quote lib pkgPath @ [nl]) (DotImports pkg)) @
     (render (indent g)
        ([Emit '')''] @
         (if writeGenerateDirective cfg then
            [Emit (''//go:generate '' @ Join (Args env) '' '')]
          else [])) @
      concat (map (\<lambda>intf. render (indent g)
                     (interface_actions cfg lib g'
                        (resetOutputPackagePath cfg pkg outputPkgName outputPackagePath) intf))
                (Interfaces pkg))) \<and>
     (\<forall>pkgPath. list_all (\<lambda>c. CHR 0x20 \<le> c \<and> c \<le> CHR 0x7E \<and> c \<noteq> dquote \<and> c \<noteq> backslash) pkgPath \<longrightarrow>
           Quote lib pkgPath = [dquote] @ pkgPath @ [dquote])"
proof -
  have ia: "interface_actions cfg lib (g\<lparr>packageMap := packageMap g'\<rparr>)
              (resetOutputPackagePath cfg pkg outputPkgName outputPackagePath) =
            interface_actions cfg lib g' (resetOutputPackagePath cfg pkg outputPkgName outputPackagePath)"
    by (rule ext) (rule interface_actions_cong, simp_all add: Generate_buf(3) [OF assms])
  have hd: "Generate_header cfg (g\<lparr>packageMap := packageMap g'\<rparr>) = Generate_header cfg g"
    by (rule Generate_header_cong)
  have draft: "buf g' =
     (buf g @
      render (indent g)
        (Generate_header cfg g @ projr (Generate_command cfg env) @
         [Emit []] @
         (if writePkgComment cfg then
            [Emit (''// Package '' @ outputPkgName @ '' is a generated GoMock package.'')]
          else []) @
         [Emit (''package '' @ outputPkgName),
          Emit [],
          Emit ''import ('']) @
      alias_lines lib (indent g)
        (filter (\<lambda>(pkgPath, pkgName).
             pkgPath \<noteq> resetOutputPackagePath cfg pkg outputPkgName outputPackagePath)
           (rangeOrder env (packageMap g')))) @
     concat (map (\<lambda>pkgPath. indent g @ [tab] @ ''. '' @ Quote lib pkgPath @ [nl]) (DotImports pkg)) @
     (render (indent g)
        ([Emit '')''] @
         (if writeGenerateDirective cfg then
            [Emit (''//go:generate '' @ Join (Args env) '' '')]
          else [])) @
      concat (map (\<lambda>intf. render (indent g)
                     (interface_actions cfg lib g'
                        (resetOutputPackagePath cfg pkg outputPkgName outputPackagePath) intf))
                (Interfaces pkg)))"
    unfolding Generate_draft_eq [OF assms] Generate_draft_def dot_lines_def ia hd
    by simp
  have quoted: "\<forall>pkgPath. list_all (\<lambda>c. CHR 0x20 \<le> c \<and> c \<le> CHR 0x7E \<and> c \<noteq> dquote \<and> c \<noteq> backslash) pkgPath \<longrightarrow>
           Quote lib pkgPath = [dquote] @ pkgPath @ [dquote]"
    by (simp add: Quote_plain)
  from draft quoted show ?thesis by (rule conjI)
qed


theorem Generate_dot_imports_witness:
  "\<not> isl (Generate ex_flags ex_env ex_lib ex_generator ex_dot ''foo'' ''example.com/foo'') \<and>
   PkgPath ex_dot = ''example.com/foo'' \<and>
   Imports ex_dot = [''example.com/foo''] \<and>
   DotImports ex_dot = [''example.com/bar'', ''example.com/bar'', ''example.com/foo'',
                        ''go.uber.org/mock/gomock''] \<and>
   buf (fst (projr (Generate ex_flags ex_env ex_lib ex_generator ex_dot ''foo'' ''example.com/foo''))) =
     render []
       [Emit ''// Code generated by MockGen. DO NOT EDIT.'',
        Emit [],
        Emit ''package foo'',
        Emit [],
        Emit ''import ('',
        Indent,
        Emit (''gomock '' @ [dquote] @ ''go.uber.org/mock/gomock'' @ [dquote]),
        Emit (''. '' @ [dquote] @ ''example.com/bar'' @ [dquote]),
        Emit (''. '' @ [dquote] @ ''example.com/bar'' @ [dquote]),
        Emit (''. '' @ [dquote] @ ''example.com/foo'' @ [dquote]),
        Emit (''. '' @ [dquote] @ ''go.uber.org/mock/gomock'' @ [dquote]),
        Dedent,
        Emit '')'']"
proof -
  let ?G = "Generate ex_flags ex_env ex_lib ex_generator ex_dot ''foo'' ''example.com/foo''"
  have ok: "?G = Inr (fst (projr ?G), snd (projr ?G))"
    by (simp add: Generate_ex)
  have pm: "packageMap (fst (projr ?G)) = [(''go.uber.org/mock/gomock'', ''gomock'')]"
    by (simp add: Generate_ex ex_keep ex_dot_aliases exec_packageMap)
  have q: "\<And>s. list_all (\<lambda>c. CHR 0x20 \<le> c \<and> c \<le> CHR 0x7E \<and> c \<noteq> dquote \<and> c \<noteq> backslash) s \<Longrightarrow>
      Quote ex_lib s = [dquote] @ s @ [dquote]"
    using Generate_dot_imports [OF ok] by blast
  have q1: "Quote ex_lib ''example.com/bar'' = [dquote] @ ''example.com/bar'' @ [dquote]"
    by (rule q) (simp add: less_eq_char_def)
  have q2: "Quote ex_lib ''example.com/foo'' = [dquote] @ ''example.com/foo'' @ [dquote]"
    by (rule q) (simp add: less_eq_char_def)
  have q3: "Quote ex_lib ''go.uber.org/mock/gomock'' = [dquote] @ ''go.uber.org/mock/gomock'' @ [dquote]"
    by (rule q) (simp add: less_eq_char_def)
  from ok have run: "\<not> isl ?G" by (metis sum.disc(2))
  have "buf (fst (projr ?G)) =
     render []
       [Emit ''// Code generated by MockGen. DO NOT EDIT.'',
        Emit [],
        Emit ''package foo'',
        Emit [],
        Emit ''import ('',
        Indent,
        Emit (''gomock '' @ [dquote] @ ''go.uber.org/mock/gomock'' @ [dquote]),
        Emit (''. '' @ [dquote] @ ''example.com/bar'' @ [dquote]),
        Emit (''. '' @ [dquote] @ ''example.com/bar'' @ [dquote]),
        Emit (''. '' @ [dquote] @ ''example.com/foo'' @ [dquote]),
        Emit (''. '' @ [dquote] @ ''go.uber.org/mock/gomock'' @ [dquote]),
        Dedent,
        Emit '')'']"
    unfolding conjunct1 [OF Generate_dot_imports [OF ok]] pm ex_keep
    by (simp add: q1 q2 q3 alias_lines_def Generate_header_def Generate_command_def
          ex_generator_def ex_flags_def ex_env_def ex_dot_def)
  with run show ?thesis by (simp add: ex_dot_def)
qed

end
